theory Spec2Isabelle
  imports Main
begin

section \<open>JavaScript strings\<close>

text \<open>
  A JavaScript string is a sequence of code units. The model uses \<^typ>\<open>string\<close>, a list
  of 8-bit characters: the code units U+0000 to U+00FF. No code unit above U+00FF is
  equal, with or without the \<open>i\<close> flag, to a character of the ASCII patterns used by
  the adapters, so the patterns behave on longer code units as on any other
  non-matching character.
\<close>

definition code :: "char \<Rightarrow> nat" where
  "code c = of_char c"

text \<open>\<open>\s\<close> of a regular expression and the characters removed by \<open>trim()\<close>:
  TAB, LF, VT, FF, CR, SPACE and NO-BREAK SPACE.\<close>

definition isSpace :: "char \<Rightarrow> bool" where
  "isSpace c = (code c \<in> set [9, 10, 11, 12, 13, 32, 160])"

definition isLetter :: "char \<Rightarrow> bool" where
  "isLetter c = ((65 \<le> code c \<and> code c \<le> 90) \<or> (97 \<le> code c \<and> code c \<le> 122))"

text \<open>\<open>toLowerCase()\<close> on one code unit: A-Z, and the capital letters of Latin-1
  (U+00C0 to U+00DE without the multiplication sign U+00D7).\<close>

definition lowerChar :: "char \<Rightarrow> char" where
  "lowerChar c =
     (if (65 \<le> code c \<and> code c \<le> 90) \<or> (192 \<le> code c \<and> code c \<le> 222 \<and> code c \<noteq> 215)
      then char_of (code c + 32) else c)"

definition toLowerCase :: "string \<Rightarrow> string" where
  "toLowerCase s = map lowerChar s"

text \<open>Equality of an input character with a pattern character under the \<open>i\<close> flag.
  The patterns are ASCII, where only the letters A-Z and a-z fold together.\<close>

definition foldChar :: "char \<Rightarrow> char" where
  "foldChar c = (if 65 \<le> code c \<and> code c \<le> 90 then char_of (code c + 32) else c)"

definition eqIgnoreCase :: "char \<Rightarrow> char \<Rightarrow> bool" where
  "eqIgnoreCase c p = (foldChar c = foldChar p)"

text \<open>\<open>s.startsWith(p)\<close> and \<open>s.includes(p)\<close>.\<close>

fun startsWith :: "string \<Rightarrow> string \<Rightarrow> bool" where
  "startsWith s [] = True"
| "startsWith [] (p # ps) = False"
| "startsWith (c # cs) (p # ps) = (c = p \<and> startsWith cs ps)"

fun includesStr :: "string \<Rightarrow> string \<Rightarrow> bool" where
  "includesStr [] p = (p = [])"
| "includesStr (c # cs) p = (startsWith (c # cs) p \<or> includesStr cs p)"

text \<open>A literal pattern anchored at the start (\<open>^lit\<close> with the \<open>i\<close> flag): the rest of
  the input after the match, or \<open>None\<close> when the input does not start with it.\<close>

fun matchLiteralI :: "string \<Rightarrow> string \<Rightarrow> string option" where
  "matchLiteralI [] s = Some s"
| "matchLiteralI (p # ps) [] = None"
| "matchLiteralI (p # ps) (c # cs) = (if eqIgnoreCase c p then matchLiteralI ps cs else None)"

text \<open>\<open>s.trim()\<close>.\<close>

definition trim :: "string \<Rightarrow> string" where
  "trim s = rev (dropWhile isSpace (rev (dropWhile isSpace s)))"

text \<open>\<open>s.replace(/^Bearer\s+/i, "")\<close>: the greedy \<open>\s+\<close> takes every white-space
  character that follows the word; with none the pattern does not match and the
  string is returned as it is.\<close>

definition replaceBearer :: "string \<Rightarrow> string" where
  "replaceBearer s =
     (case matchLiteralI ''Bearer'' s of
        None \<Rightarrow> s
      | Some r \<Rightarrow> if takeWhile isSpace r = [] then s else dropWhile isSpace r)"

text \<open>\<open>config.apiKey.replace(/^Bearer\s+/i, "").trim()\<close>\<close>

definition cleanApiKey :: "string \<Rightarrow> string" where
  "cleanApiKey k = trim (replaceBearer k)"

text \<open>\<open>s.replace(/^data:image\/[a-z]+;base64,/i, "")\<close>: \<open>[a-z]+\<close> is greedy and
  the character after it must be \<open>;\<close>, which is no letter, so the letters taken are all
  the letters at that place.\<close>

definition replaceDataImage :: "string \<Rightarrow> string" where
  "replaceDataImage s =
     (case matchLiteralI ''data:image/'' s of
        None \<Rightarrow> s
      | Some r \<Rightarrow>
          if takeWhile isLetter r = [] then s
          else (case matchLiteralI '';base64,'' (dropWhile isLetter r) of
                  None \<Rightarrow> s
                | Some payload \<Rightarrow> payload))"

text \<open>\<open>s.replace(/\/+$/, "")\<close>: the slashes at the end are removed.\<close>

definition replaceTrailingSlashes :: "string \<Rightarrow> string" where
  "replaceTrailingSlashes s = rev (dropWhile (\<lambda>c. c = CHR ''/'') (rev s))"

section \<open>Buffers\<close>

text \<open>A \<open>Buffer\<close> is a list of bytes. \<open>Buffer.from(s)\<close> encodes a string in UTF-8:
  one byte below U+0080, two bytes from U+0080 to U+00FF.\<close>

definition bufferFrom :: "string \<Rightarrow> nat list" where
  "bufferFrom s =
     concat (map (\<lambda>c. if code c < 128 then [code c]
                        else [192 + code c div 64, 128 + code c mod 64]) s)"

definition base64Alphabet :: string where
  "base64Alphabet = ''ABCDEFGHIJKLMNOPQRSTUVWXYZabcdefghijklmnopqrstuvwxyz0123456789+/''"

definition base64Digit :: "nat \<Rightarrow> char" where
  "base64Digit n = base64Alphabet ! (n mod 64)"

text \<open>\<open>buf.toString("base64")\<close>\<close>

fun toBase64 :: "nat list \<Rightarrow> string" where
  "toBase64 (a # b # c # rest) =
     base64Digit (a div 4) # base64Digit ((a mod 4) * 16 + b div 16) #
     base64Digit ((b mod 16) * 4 + c div 64) # base64Digit (c mod 64) # toBase64 rest"
| "toBase64 [a, b] =
     [base64Digit (a div 4), base64Digit ((a mod 4) * 16 + b div 16),
      base64Digit ((b mod 16) * 4), CHR ''='']"
| "toBase64 [a] = [base64Digit (a div 4), base64Digit ((a mod 4) * 16), CHR ''='', CHR ''='']"
| "toBase64 [] = []"

section \<open>Configuration, input, requests and responses\<close>

text \<open>A property that is \<open>undefined\<close> is \<open>None\<close>. \<open>truthy\<close> is the test of \<open>if (x)\<close>
  and \<open>!x\<close> on such a property: a string is falsy when it is absent or empty.\<close>

record AIConfig =
  model :: "string option"
  apiKey :: "string option"
  baseURL :: "string option"

datatype jsvalue =
    JUndefined
  | JString string
  | JNumber int
  | JObject "(string \<times> jsvalue) list"
  | JFile "nat list"          \<comment> \<open>a file or a buffer with these bytes\<close>
  | JBufferOfBase64 string    \<comment> \<open>\<open>Buffer.from(s, "base64")\<close>\<close>
  | JInherited string         \<comment> \<open>the property of this name of \<open>Object.prototype\<close>\<close>

record ImageConfig =
  prompt :: "string option"
  systemPrompt :: "string option"
  imageBase64 :: "string list option"
  imageUrl :: "string option"
  sizeOpt :: "string option"
  seed :: "int option"
  quality :: "string option"
  aspectRatio :: "string option"
  resType :: "string option"
  extraParams :: "(string \<times> jsvalue) list option"

text \<open>\<open>table[key] ?? d\<close> and \<open>table[key] || d\<close> on an object literal whose values are
  non-empty strings. A key of the literal gives its value. A key that the literal
  does not have is looked up in \<open>Object.prototype\<close>: the names below give a function
  (or, for \<open>__proto__\<close>, the prototype), which is neither nullish nor falsy, so the
  default is not taken. Any other key, and an absent key, give the default.\<close>

definition objectPrototypeKeys :: "string list" where
  "objectPrototypeKeys =
     [''constructor'', ''__defineGetter__'', ''__defineSetter__'', ''hasOwnProperty'',
      ''__lookupGetter__'', ''__lookupSetter__'', ''isPrototypeOf'', ''propertyIsEnumerable'',
      ''toString'', ''valueOf'', ''__proto__'', ''toLocaleString'']"

definition lookupLiteral :: "(string \<times> string) list \<Rightarrow> string option \<Rightarrow> string \<Rightarrow> jsvalue" where
  "lookupLiteral table key d =
     (case key of
        None \<Rightarrow> JString d
      | Some k \<Rightarrow>
          (case map_of table k of
             Some v \<Rightarrow> JString v
           | None \<Rightarrow> if k \<in> set objectPrototypeKeys then JInherited k else JString d))"

definition truthy :: "string option \<Rightarrow> bool" where
  "truthy x = (case x of None \<Rightarrow> False | Some s \<Rightarrow> s \<noteq> [])"

text \<open>\<open>x || d\<close> on an optional string.\<close>

definition orElse :: "string option \<Rightarrow> string \<Rightarrow> string" where
  "orElse x d = (case x of None \<Rightarrow> d | Some s \<Rightarrow> if s = [] then d else s)"

text \<open>A property of a request body, and \<open>${x}\<close> in a template literal.\<close>

definition jsOfString :: "string option \<Rightarrow> jsvalue" where
  "jsOfString x = (case x of None \<Rightarrow> JUndefined | Some s \<Rightarrow> JString s)"

definition template :: "string option \<Rightarrow> string" where
  "template x = (case x of None \<Rightarrow> ''undefined'' | Some s \<Rightarrow> s)"

text \<open>The parsed response body, with the fields the adapters read:
  \<open>output.image_url\<close>, \<open>output.image_base64\<close>, \<open>output.text\<close>, \<open>data[i].url\<close> and
  \<open>images[i].url\<close>. The fields are strings, as the providers document them.\<close>

record msOutput =
  image_url :: "string option"
  image_base64 :: "string option"
  outputText :: "string option"

record response =
  outputObj :: "msOutput option"
  dataItems :: "string option list option"
  images :: "string option list option"

text \<open>\<open>data.output?.f\<close> where it is truthy.\<close>

definition outputField :: "(msOutput \<Rightarrow> string option) \<Rightarrow> response \<Rightarrow> string option" where
  "outputField f d =
     (case outputObj d of
        None \<Rightarrow> None
      | Some out \<Rightarrow> if truthy (f out) then f out else None)"

text \<open>\<open>xs && xs[0]?.url\<close> where it is truthy; an entry of the list is the \<open>url\<close> of
  that item.\<close>

definition firstUrl :: "string option list option \<Rightarrow> string option" where
  "firstUrl xs =
     (case xs of
        None \<Rightarrow> None
      | Some [] \<Rightarrow> None
      | Some (u # rest) \<Rightarrow> if truthy u then u else None)"

text \<open>The answer to a download with \<open>responseType: "arraybuffer"\<close>: the bytes and the
  \<open>content-type\<close> header.\<close>

record download =
  content :: "nat list"
  contentType :: "string option"

text \<open>The messages of the errors that the adapters throw. The source gives them in
  Chinese; each constructor stands for one message text.\<close>

datatype message =
    MissingModel              \<comment> \<open>the model name is missing\<close>
  | MissingApiKey             \<comment> \<open>the API key is missing\<close>
  | MissingPrompt             \<comment> \<open>the prompt is missing, it is required\<close>
  | MissingBaseUrl            \<comment> \<open>the base URL is missing (image dispatcher)\<close>
  | NativeFormatUnsupported   \<comment> \<open>ModelScope: format not supported or no image\<close>
  | ModelScopeImageFailed     \<comment> \<open>ModelScope image generation failed\<close>
  | LegacyNoImage             \<comment> \<open>ModelScope: no valid image (imageBase64/imageUrl)\<close>
  | LegacyFormatUnsupported   \<comment> \<open>ModelScope: format of the answer not supported\<close>
  | ZhipuNoUrl                \<comment> \<open>Zhipu: wrong format, no image URL\<close>
  | ZhipuImageFailed          \<comment> \<open>Zhipu image generation failed\<close>
  | ModelScopeNoUrl           \<comment> \<open>ModelScope: wrong format, no image URL\<close>
  | VideoMissingBaseURL       \<comment> \<open>the base URL is missing (video dispatcher)\<close>
  | BigModelVideoNoApiKey     \<comment> \<open>Zhipu video: no API key configured\<close>
  | BigModelVideoModel        \<comment> \<open>Zhipu video: only glm-4v and glm-4v-plus are supported\<close>
  | BigModelVideoNoInput      \<comment> \<open>Zhipu video: videoFile or frameBase64List is needed\<close>
  | BigModelVideoNoFrames     \<comment> \<open>Zhipu video: the extraction gave no frame\<close>
  | Text string               \<comment> \<open>a message made by the environment\<close>

datatype thrown = Error message | TypeError

text \<open>What an invocation does to the outside, in order.\<close>

datatype event =
    HttpPost string jsvalue "(string \<times> string) list" nat
      \<comment> \<open>\<open>axios.post(url, body, {headers, timeout})\<close>\<close>
  | HttpGet string
      \<comment> \<open>\<open>axios.get(url, {responseType: "arraybuffer"})\<close>\<close>
  | ConsoleError response
      \<comment> \<open>\<open>console.error(label, data)\<close>\<close>
  | GenerateImage string string string string "string list" "string option" jsvalue
      \<comment> \<open>\<open>generateImage\<close> of the AI SDK: base URL, Authorization header, model,
          prompt text (the source appends a fixed sentence that asks for the picture),
          images, aspect ratio, size\<close>

text \<open>The environment answers the calls. \<open>uError\<close> is \<open>u.error(e).message\<close>, a helper
  of the repository that the adapters import.\<close>

record env =
  axiosPost :: "string \<Rightarrow> jsvalue \<Rightarrow> (string \<times> string) list \<Rightarrow> thrown + response"
  axiosGet :: "string \<Rightarrow> thrown + download"
  uError :: "thrown \<Rightarrow> message"
  sdkGenerateImage :: "event \<Rightarrow> thrown + string"
  sdkTextBranch :: "ImageConfig \<Rightarrow> AIConfig \<Rightarrow> event list \<times> (thrown + string)"

type_synonym outcome = "event list \<times> (thrown + string)"

text \<open>\<open>catch (error) { throw new Error(u.error(error).message || fallback) }\<close>\<close>

definition rethrow :: "env \<Rightarrow> message \<Rightarrow> thrown \<Rightarrow> thrown" where
  "rethrow env fallback e =
     (if uError env e = Text [] then Error fallback else Error (uError env e))"

definition jsonHeaders :: "string \<Rightarrow> (string \<times> string) list" where
  "jsonHeaders key =
     [(''Authorization'', ''Bearer '' @ key), (''Content-Type'', ''application/json'')]"

text \<open>The download of an image and its data URI,
  \<open>`data:${res.headers["content-type"] || "image/png"};base64,${base64}`\<close>:
  the function \<open>urlToBase64\<close>, whose three lines the adapters also repeat in place.\<close>

definition dataUri :: "download \<Rightarrow> string" where
  "dataUri res =
     ''data:'' @ orElse (contentType res) ''image/png'' @ '';base64,'' @ toBase64 (content res)"

definition urlToBase64 :: "env \<Rightarrow> string \<Rightarrow> outcome" where
  "urlToBase64 env u =
     (case axiosGet env u of
        Inl e \<Rightarrow> ([HttpGet u], Inl e)
      | Inr res \<Rightarrow> ([HttpGet u], Inr (dataUri res)))"

text \<open>\<open>`data:text/plain;base64,${Buffer.from(text).toString("base64")}`\<close>\<close>

definition textAsDataUri :: "string \<Rightarrow> string" where
  "textAsDataUri t = ''data:text/plain;base64,'' @ toBase64 (bufferFrom t)"

text \<open>\<open>try { ... } catch\<close> around an outcome, and a POST followed by the handling of
  its answer.\<close>

definition catching :: "env \<Rightarrow> message \<Rightarrow> outcome \<Rightarrow> outcome" where
  "catching env fallback r =
     (case r of
        (evs, Inl e) \<Rightarrow> (evs, Inl (rethrow env fallback e))
      | (evs, Inr v) \<Rightarrow> (evs, Inr v))"

definition postThen ::
  "env \<Rightarrow> string \<Rightarrow> jsvalue \<Rightarrow> (string \<times> string) list \<Rightarrow> nat \<Rightarrow> (response \<Rightarrow> outcome) \<Rightarrow> outcome"
where
  "postThen env u body hs t k =
     (case axiosPost env u body hs of
        Inl e \<Rightarrow> ([HttpPost u body hs t], Inl e)
      | Inr d \<Rightarrow> (case k d of (evs, r) \<Rightarrow> (HttpPost u body hs t # evs, r)))"

section \<open>The native ModelScope image adapter\<close>

text \<open>\<open>image/owned/modelScope.ts\<close>, first adapter of the file.\<close>

definition nativeRequestData :: "ImageConfig \<Rightarrow> jsvalue" where
  "nativeRequestData input =
     JObject
       [(''input'', JObject
           ((''prompt'', jsOfString (prompt input)) #
            (case imageBase64 input of
               Some (first # rest) \<Rightarrow> [(''image'', JString (replaceDataImage first))]
             | _ \<Rightarrow> if truthy (imageUrl input)
                    then [(''image_url'', jsOfString (imageUrl input))] else []))),
        (''parameters'', JObject
           ((if truthy (sizeOpt input) then [(''size'', jsOfString (sizeOpt input))] else []) @
            (case seed input of None \<Rightarrow> [] | Some n \<Rightarrow> [(''seed'', JNumber n)])))]"

definition nativeResponse :: "env \<Rightarrow> ImageConfig \<Rightarrow> response \<Rightarrow> outcome" where
  "nativeResponse env input d =
     (case outputField image_url d of
        Some u \<Rightarrow>
          if resType input = Some ''b64'' then urlToBase64 env u else ([], Inr u)
      | None \<Rightarrow>
          (case outputField image_base64 d of
             Some b \<Rightarrow>
               if startsWith b ''data:image'' then ([], Inr b)
               else ([], Inr (''data:image/png;base64,'' @ b))
           | None \<Rightarrow>
               (case outputField outputText d of
                  Some t \<Rightarrow> ([], Inr (textAsDataUri t))
                | None \<Rightarrow> ([ConsoleError d], Inl (Error NativeFormatUnsupported)))))"

definition nativeUrl :: "AIConfig \<Rightarrow> string" where
  "nativeUrl config =
     replaceTrailingSlashes
       (orElse (baseURL config) ''https://api-inference.modelscope.cn/api/v1'')
     @ ''/models/'' @ template (model config) @ ''/inference''"

definition modelScopeNative :: "env \<Rightarrow> ImageConfig \<Rightarrow> AIConfig \<Rightarrow> outcome" where
  "modelScopeNative env input config =
     (if \<not> truthy (model config) then ([], Inl (Error MissingModel))
      else if \<not> truthy (apiKey config) then ([], Inl (Error MissingApiKey))
      else if \<not> truthy (prompt input) then ([], Inl (Error MissingPrompt))
      else
        catching env ModelScopeImageFailed
          (postThen env (nativeUrl config) (nativeRequestData input)
             (jsonHeaders (cleanApiKey (template (apiKey config))))
             120000
             (nativeResponse env input)))"

section \<open>The legacy ModelScope image adapter\<close>

text \<open>\<open>image/owned/modelScope.ts\<close>, second adapter of the file. It has no check of the
  configuration and no \<open>try\<close>: an absent model or key is written as \<open>undefined\<close> into the
  URL and the header.\<close>

definition legacyImage :: "ImageConfig \<Rightarrow> string option" where
  "legacyImage input =
     (case imageBase64 input of
        Some (first # rest) \<Rightarrow> Some first
      | _ \<Rightarrow> if truthy (imageUrl input) then imageUrl input else None)"

definition legacyResponse :: "response \<Rightarrow> outcome" where
  "legacyResponse d =
     (case outputField image_url d of
        Some u \<Rightarrow> ([], Inr u)
      | None \<Rightarrow>
          (case outputField image_base64 d of
             Some b \<Rightarrow> ([], Inr b)
           | None \<Rightarrow>
               (case outputField outputText d of
                  Some t \<Rightarrow> ([], Inr (textAsDataUri t))
                | None \<Rightarrow> ([], Inl (Error LegacyFormatUnsupported)))))"

definition legacyUrl :: "AIConfig \<Rightarrow> string" where
  "legacyUrl config =
     orElse (baseURL config) ''https://inference.modelscope.cn/api/v1''
     @ ''/models/'' @ template (model config) @ ''/inference''"

definition legacyRequestData :: "ImageConfig \<Rightarrow> string \<Rightarrow> jsvalue" where
  "legacyRequestData input img =
     JObject
       [(''input'', JObject [(''image'', JString img)]),
        (''parameters'', JObject (case extraParams input of None \<Rightarrow> [] | Some ps \<Rightarrow> ps))]"

definition modelScopeLegacy :: "env \<Rightarrow> ImageConfig \<Rightarrow> AIConfig \<Rightarrow> outcome" where
  "modelScopeLegacy env input config =
     (case legacyImage input of
        None \<Rightarrow> ([], Inl (Error LegacyNoImage))
      | Some img \<Rightarrow>
          postThen env (legacyUrl config) (legacyRequestData input img)
            (jsonHeaders (template (apiKey config)))
            30000
            legacyResponse)"

section \<open>The image dispatcher and its adapters\<close>

text \<open>\<open>image/owned/other.ts\<close>: \<open>generateZhipuImage\<close>, \<open>generateModelScopeImage\<close>, the
  path of the OpenAI-compatible interface and the dispatcher.\<close>

definition imagePart :: "ImageConfig \<Rightarrow> (string \<times> jsvalue) list" where
  "imagePart input =
     (case imageBase64 input of
        Some (first # rest) \<Rightarrow> [(''image'', JString (replaceDataImage first))]
      | _ \<Rightarrow> [])"

definition urlResponse :: "env \<Rightarrow> ImageConfig \<Rightarrow> message \<Rightarrow> string option list option \<Rightarrow> response \<Rightarrow> outcome" where
  "urlResponse env input noUrl items d =
     (case firstUrl items of
        None \<Rightarrow> ([ConsoleError d], Inl (Error noUrl))
      | Some u \<Rightarrow>
          if resType input = Some ''b64'' then urlToBase64 env u else ([], Inr u))"

definition zhipuUrl :: "AIConfig \<Rightarrow> string" where
  "zhipuUrl config =
     replaceTrailingSlashes (orElse (baseURL config) ''https://open.bigmodel.cn/api/paas/v4'')
     @ ''/images/generations''"

definition zhipuBody :: "ImageConfig \<Rightarrow> AIConfig \<Rightarrow> jsvalue" where
  "zhipuBody input config =
     JObject
       ([(''model'', jsOfString (model config)), (''prompt'', jsOfString (prompt input))] @
        (if truthy (sizeOpt input) then [(''size'', jsOfString (sizeOpt input))] else []) @
        (if truthy (quality input) then [(''quality'', jsOfString (quality input))] else []) @
        imagePart input)"

definition generateZhipuImage :: "env \<Rightarrow> ImageConfig \<Rightarrow> AIConfig \<Rightarrow> outcome" where
  "generateZhipuImage env input config =
     (case apiKey config of
        None \<Rightarrow> ([], Inl TypeError)
      | Some k \<Rightarrow>
          catching env ZhipuImageFailed
            (postThen env (zhipuUrl config) (zhipuBody input config)
               (jsonHeaders (cleanApiKey k))
               120000
               (\<lambda>d. urlResponse env input ZhipuNoUrl (dataItems d) d)))"

definition modelScopeUrl :: "AIConfig \<Rightarrow> string" where
  "modelScopeUrl config =
     replaceTrailingSlashes (orElse (baseURL config) ''https://api-inference.modelscope.cn/v1'')
     @ ''/images/generations''"

definition modelScopeBody :: "ImageConfig \<Rightarrow> AIConfig \<Rightarrow> jsvalue" where
  "modelScopeBody input config =
     JObject
       ([(''model'', jsOfString (model config)), (''prompt'', jsOfString (prompt input)),
         (''n'', JNumber 1)] @
        (if truthy (sizeOpt input) then [(''size'', jsOfString (sizeOpt input))] else []) @
        (case seed input of None \<Rightarrow> [] | Some n \<Rightarrow> [(''seed'', JNumber n)]) @
        imagePart input)"

definition generateModelScopeImage :: "env \<Rightarrow> ImageConfig \<Rightarrow> AIConfig \<Rightarrow> outcome" where
  "generateModelScopeImage env input config =
     (case apiKey config of
        None \<Rightarrow> ([], Inl TypeError)
      | Some k \<Rightarrow>
          catching env ModelScopeImageFailed
            (postThen env (modelScopeUrl config) (modelScopeBody input config)
               (jsonHeaders (cleanApiKey k))
               120000
               (\<lambda>d. urlResponse env input ModelScopeNoUrl (images d) d)))"

text \<open>The OpenAI-compatible path after the check of the base URL. The branch for the
  models named \<open>gemini\<close> or \<open>nano\<close> goes through \<open>generateText\<close> of the AI SDK and is taken
  from the environment; the other branch returns \<open>image.base64\<close> of \<open>generateImage\<close>.\<close>

definition fullPrompt :: "ImageConfig \<Rightarrow> string" where
  "fullPrompt input =
     (if truthy (systemPrompt input)
      then template (systemPrompt input) @ [CHR 0x0A, CHR 0x0A] @ template (prompt input)
      else template (prompt input))"

text \<open>\<open>sizeMap[input.size] ?? "1024x1024"\<close>\<close>

definition sizeMap :: "string option \<Rightarrow> jsvalue" where
  "sizeMap s =
     lookupLiteral [(''1K'', ''1024x1024''), (''2K'', ''2048x2048''), (''4K'', ''4096x4096'')] s
       ''1024x1024''"

definition imageCall :: "ImageConfig \<Rightarrow> AIConfig \<Rightarrow> event" where
  "imageCall input config =
     GenerateImage (template (baseURL config))
       (''Bearer '' @ cleanApiKey (template (apiKey config)))
       (template (model config))
       (fullPrompt input)
       (case imageBase64 input of None \<Rightarrow> [] | Some xs \<Rightarrow> xs)
       (aspectRatio input)
       (sizeMap (sizeOpt input))"

definition isTextModel :: "AIConfig \<Rightarrow> bool" where
  "isTextModel config =
     (includesStr (template (model config)) ''gemini'' \<or>
      includesStr (template (model config)) ''nano'')"

definition openAICompatible :: "env \<Rightarrow> ImageConfig \<Rightarrow> AIConfig \<Rightarrow> outcome" where
  "openAICompatible env input config =
     (if isTextModel config then sdkTextBranch env input config
      else
        (case sdkGenerateImage env (imageCall input config) of
           Inl e \<Rightarrow> ([imageCall input config], Inl e)
         | Inr base64 \<Rightarrow> ([imageCall input config], Inr base64)))"

datatype adapter = ZhipuAdapter | ModelScopeAdapter | OpenAICompatibleAdapter

text \<open>Lines 15 to 33 of the dispatcher: the checks and the choice of the adapter.\<close>

definition selectAdapter :: "AIConfig \<Rightarrow> thrown + adapter" where
  "selectAdapter config =
     (if \<not> truthy (model config) then Inl (Error MissingModel)
      else if \<not> truthy (apiKey config) then Inl (Error MissingApiKey)
      else if includesStr (template (model config)) ''cogview'' \<or>
              includesStr (template (model config)) ''GLM-Image''
        then Inr ZhipuAdapter
      else if includesStr (template (model config)) ''Z-Image'' \<or>
              includesStr (template (model config)) ''modelscope'' \<or>
              includesStr (template (model config)) ''/''
        then Inr ModelScopeAdapter
      else if \<not> truthy (baseURL config) then Inl (Error MissingBaseUrl)
      else Inr OpenAICompatibleAdapter)"

definition imageDispatcher :: "env \<Rightarrow> ImageConfig \<Rightarrow> AIConfig \<Rightarrow> outcome" where
  "imageDispatcher env input config =
     (case selectAdapter config of
        Inl e \<Rightarrow> ([], Inl e)
      | Inr ZhipuAdapter \<Rightarrow> generateZhipuImage env input config
      | Inr ModelScopeAdapter \<Rightarrow> generateModelScopeImage env input config
      | Inr OpenAICompatibleAdapter \<Rightarrow> openAICompatible env input config)"

text \<open>The variant of the dispatcher, lines 13 to 32: the key words are looked for
  in the lower-cased model name, the base URL is trimmed, and the adapters receive
  the configuration with the cleaned key and the trimmed base URL.\<close>

definition variantBaseURL :: "AIConfig \<Rightarrow> string" where
  "variantBaseURL config = (if truthy (baseURL config) then trim (template (baseURL config)) else [])"

definition selectAdapterVariant :: "AIConfig \<Rightarrow> thrown + adapter \<times> AIConfig" where
  "selectAdapterVariant config =
     (if \<not> truthy (model config) then Inl (Error MissingModel)
      else if \<not> truthy (apiKey config) then Inl (Error MissingApiKey)
      else
        (let passed = config\<lparr>apiKey := Some (cleanApiKey (template (apiKey config))),
                             baseURL := Some (variantBaseURL config)\<rparr>
         in if includesStr (toLowerCase (template (model config))) ''cogview'' \<or>
               includesStr (toLowerCase (template (model config))) ''glm-image''
              then Inr (ZhipuAdapter, passed)
            else if includesStr (template (model config)) ''/'' \<or>
                    includesStr (toLowerCase (template (model config))) ''modelscope'' \<or>
                    includesStr (toLowerCase (template (model config))) ''z-image''
              then Inr (ModelScopeAdapter, passed)
            else if variantBaseURL config = [] then Inl (Error MissingBaseUrl)
            else Inr (OpenAICompatibleAdapter, passed)))"

section \<open>The video adapters up to their first call\<close>

text \<open>The video adapters are followed up to the first thing they do to the outside:
  they throw, they hand the request to another adapter of the repository, or they
  post a form.\<close>

record VideoConfig =
  videoPrompt :: "string option"            \<comment> \<open>\<open>prompt\<close>\<close>
  duration :: "int option"
  videoAspectRatio :: "string option"       \<comment> \<open>\<open>aspectRatio\<close>\<close>
  videoImageBase64 :: "string list option"  \<comment> \<open>\<open>imageBase64\<close>\<close>
  videoFile :: "nat list option"
  frameBase64List :: "string list option"
  frameCount :: "int option"

datatype callee = GenerateZhipuVideo | GenerateModelScopeVideo | BigModelImage string

datatype step =
    Throws thrown
  | Delegates callee
  | Posts string "(string \<times> jsvalue) list"
      \<comment> \<open>\<open>axios.post(url, form)\<close> with the values handed to the form\<close>

definition isWord :: "char \<Rightarrow> bool" where
  "isWord c = (isLetter c \<or> (48 \<le> code c \<and> code c \<le> 57) \<or> c = CHR ''_'')"

text \<open>\<open>s.replace(/^data:image\/\w+;base64,/, "")\<close>, without the \<open>i\<close> flag.\<close>

definition replaceDataImageWord :: "string \<Rightarrow> string" where
  "replaceDataImageWord s =
     (if startsWith s ''data:image/'' \<and> takeWhile isWord (drop 11 s) \<noteq> [] \<and>
         startsWith (dropWhile isWord (drop 11 s)) '';base64,''
      then drop 8 (dropWhile isWord (drop 11 s)) else s)"

text \<open>The form of the OpenAI-compatible video path. \<open>seconds\<close> is \<open>String(duration)\<close>
  of the value shown, \<open>size\<close> is \<open>sizeMap[input.aspectRatio] || "1920x1080"\<close>;
  \<open>requestUrl\<close> is the part of the base URL before the first \<open>|\<close>.\<close>

definition videoForm :: "VideoConfig \<Rightarrow> AIConfig \<Rightarrow> (string \<times> jsvalue) list" where
  "videoForm input config =
     [(''model'', jsOfString (model config)),
      (''prompt'', jsOfString (videoPrompt input)),
      (''seconds'', case duration input of None \<Rightarrow> JUndefined | Some n \<Rightarrow> JNumber n),
      (''size'',
         lookupLiteral [(''16:9'', ''1920x1080''), (''9:16'', ''1080x1920'')]
           (videoAspectRatio input) ''1920x1080'')] @
     (case videoImageBase64 input of
        Some (first # rest) \<Rightarrow> [(''input_reference'', JBufferOfBase64 (replaceDataImageWord first))]
      | _ \<Rightarrow> [])"

definition requestUrl :: "string \<Rightarrow> string" where
  "requestUrl base = takeWhile (\<lambda>c. c \<noteq> CHR ''|'') base"

text \<open>\<open>const authorization = `Bearer ${config.apiKey}`\<close>: the Authorization header of
  the POST and of the status queries on the OpenAI-compatible path of both video
  dispatchers. The first dispatcher has the cleaned key in \<open>apiKey\<close> (line 15) and
  hands it to the Zhipu and ModelScope functions, but takes \<open>config.apiKey\<close> here.\<close>

definition videoAuthorization :: "AIConfig \<Rightarrow> string" where
  "videoAuthorization config = ''Bearer '' @ template (apiKey config)"

text \<open>\<open>video/owned/other.ts\<close>, first dispatcher of the file (lines 10 to 57).\<close>

definition videoDispatcher :: "VideoConfig \<Rightarrow> AIConfig \<Rightarrow> step" where
  "videoDispatcher input config =
     (if \<not> truthy (apiKey config) then Throws (Error MissingApiKey)
      else if \<not> truthy (model config) then Throws (Error MissingModel)
      else if includesStr (toLowerCase (template (model config))) ''cogvideo''
        then Delegates GenerateZhipuVideo
      else if includesStr (template (model config)) ''/'' \<or>
              includesStr (toLowerCase (template (model config))) ''modelscope''
        then Delegates GenerateModelScopeVideo
      else if variantBaseURL config = [] then Throws (Error VideoMissingBaseURL)
      else Posts (requestUrl (variantBaseURL config)) (videoForm input config))"

text \<open>\<open>video/owned/other.ts\<close>, second dispatcher of the file (lines 291 to 336):
  \<open>const model = config.model || ""\<close> takes the place of the check of the model.\<close>

definition videoDispatcherVariant :: "VideoConfig \<Rightarrow> AIConfig \<Rightarrow> step" where
  "videoDispatcherVariant input config =
     (if \<not> truthy (apiKey config) then Throws (Error MissingApiKey)
      else if includesStr (orElse (model config) []) ''cogvideo'' \<or>
              includesStr (orElse (model config) []) ''CogVideo''
        then Delegates GenerateZhipuVideo
      else if includesStr (orElse (model config) []) ''video'' \<and>
              (includesStr (orElse (model config) []) ''modelscope'' \<or>
               includesStr (orElse (model config) []) ''/'' \<or>
               (case baseURL config of None \<Rightarrow> False | Some b \<Rightarrow> includesStr b ''modelscope''))
        then Delegates GenerateModelScopeVideo
      else if \<not> truthy (baseURL config) then Throws (Error VideoMissingBaseURL)
      else Posts (requestUrl (template (baseURL config))) (videoForm input config))"

text \<open>\<open>video/owned/bigModel.ts\<close>: the checks, then the extraction of the frames of a
  video file through the endpoint of the application, or the analysis of the first
  frame by the image adapter.\<close>

definition bigModelVideo :: "VideoConfig \<Rightarrow> AIConfig \<Rightarrow> step" where
  "bigModelVideo input config =
     (if \<not> truthy (apiKey config) then Throws (Error BigModelVideoNoApiKey)
      else if orElse (model config) [] \<notin> set [''glm-4v'', ''glm-4v-plus'']
        then Throws (Error BigModelVideoModel)
      else if videoFile input = None \<and> frameBase64List input = None
        then Throws (Error BigModelVideoNoInput)
      else
        (case videoFile input of
           Some file \<Rightarrow>
             Posts ''/api/utils/extract-video-frames''
               [(''videoFile'', JFile file),
                (''frameCount'',
                   JNumber (case frameCount input of
                              None \<Rightarrow> 5 | Some n \<Rightarrow> if n = 0 then 5 else n)),
                (''frameInterval'', JNumber 2)]
         | None \<Rightarrow>
             (case frameBase64List input of
                Some (frame # rest) \<Rightarrow> Delegates (BigModelImage frame)
              | _ \<Rightarrow> Throws (Error BigModelVideoNoFrames))))"

section \<open>The poller\<close>

text \<open>
  Modelled from the spec: \<open>pollTask\<close> is imported from \<open>@/utils/ai/utils\<close>, which is
  not among the source files. The spec gives the contract
  \<open>poll(check, interval, timeout)\<close>: it invokes \<open>check\<close> repeatedly with a fixed delay
  between calls until \<open>check\<close> returns \<open>completed = true\<close> (it resolves with the URL),
  returns a non-empty error (it fails at once), or the elapsed time exceeds the
  timeout (it fails with a timeout error).

  Time is a clock in milliseconds that the delay between two calls moves forward;
  \<open>check i\<close> is the answer to the call number \<open>i\<close>, counted from 0. The outcome holds
  the time of each call and the time of the end.
\<close>

record checkResult =
  completed :: bool
  url :: "string option"
  error :: "string option"

datatype pollResult = Resolved "string option" | Failed string | TimeoutError

record pollOutcome =
  pollResult :: pollResult
  callTimes :: "nat list"
  finishedAt :: nat

partial_function (option) pollLoop ::
  "(nat \<Rightarrow> checkResult) \<Rightarrow> nat \<Rightarrow> nat \<Rightarrow> nat list \<Rightarrow> nat \<Rightarrow> pollOutcome option"
where
  "pollLoop check interval timeout calls now =
     (if completed (check (length calls))
        then Some \<lparr>pollResult = Resolved (url (check (length calls))),
                   callTimes = calls @ [now], finishedAt = now\<rparr>
      else if truthy (error (check (length calls)))
        then Some \<lparr>pollResult = Failed (template (error (check (length calls)))),
                   callTimes = calls @ [now], finishedAt = now\<rparr>
      else if timeout < now + interval
        then Some \<lparr>pollResult = TimeoutError,
                   callTimes = calls @ [now], finishedAt = now + interval\<rparr>
      else pollLoop check interval timeout (calls @ [now]) (now + interval))"

declare pollLoop.simps [code]

definition pollTask :: "(nat \<Rightarrow> checkResult) \<Rightarrow> nat \<Rightarrow> nat \<Rightarrow> pollOutcome option" where
  "pollTask check interval timeout = pollLoop check interval timeout [] 0"

text \<open>A call that neither completes nor reports an error.\<close>

definition pending :: "checkResult \<Rightarrow> bool" where
  "pending r = (\<not> completed r \<and> \<not> truthy (error r))"

section \<open>Output shapes\<close>

text \<open>The Authorization header of an outgoing call.\<close>

fun authorization :: "event \<Rightarrow> string option" where
  "authorization (HttpPost u b hs t) = map_of hs ''Authorization''"
| "authorization (GenerateImage base auth m p imgs ar sz) = Some auth"
| "authorization (HttpGet u) = None"
| "authorization (ConsoleError d) = None"

text \<open>The two output shapes of the spec: a bare URL string, recognised as the
  dispatcher recognises one (by \<open>http://\<close> or \<open>https://\<close> at its start, in any case),
  and a string \<open>data:<mime>;base64,<payload>\<close>.\<close>

definition isUrlString :: "string \<Rightarrow> bool" where
  "isUrlString s =
     (case matchLiteralI ''http://'' s of
        Some rest \<Rightarrow> True
      | None \<Rightarrow> (case matchLiteralI ''https://'' s of Some rest \<Rightarrow> True | None \<Rightarrow> False))"

definition isDataUri :: "string \<Rightarrow> bool" where
  "isDataUri s = (startsWith s ''data:'' \<and> includesStr (drop 5 s) '';base64,'')"

text \<open>The pattern \<open>^data:[a-z/]+;base64,\<close> of the spec. The class has no \<open>;\<close>, so the
  greedy \<open>[a-z/]+\<close> ends where the characters of the class end.\<close>

definition isLowerOrSlash :: "char \<Rightarrow> bool" where
  "isLowerOrSlash c = ((97 \<le> code c \<and> code c \<le> 122) \<or> c = CHR ''/'')"

definition matchesDataUriPattern :: "string \<Rightarrow> bool" where
  "matchesDataUriPattern s =
     (startsWith s ''data:'' \<and> takeWhile isLowerOrSlash (drop 5 s) \<noteq> [] \<and>
      startsWith (dropWhile isLowerOrSlash (drop 5 s)) '';base64,'')"

section \<open>Sample values\<close>

text \<open>An environment that answers every POST with the same body and every download
  with the same file, and takes the message of an error as it is.\<close>

definition sampleEnv :: "response \<Rightarrow> download \<Rightarrow> env" where
  "sampleEnv d res =
     \<lparr>axiosPost = (\<lambda>u b hs. Inr d),
      axiosGet = (\<lambda>u. Inr res),
      uError = (\<lambda>e. case e of Error m \<Rightarrow> m | TypeError \<Rightarrow> Text ''TypeError''),
      sdkGenerateImage = (\<lambda>call. Inr ''iVBORw==''),
      sdkTextBranch = (\<lambda>input config. ([], Inr ''iVBORw==''))\<rparr>"

definition sampleInput :: ImageConfig where
  "sampleInput =
     \<lparr>prompt = Some ''a cat'', systemPrompt = None, imageBase64 = None, imageUrl = None,
      sizeOpt = None, seed = None, quality = None, aspectRatio = None, resType = None,
      extraParams = None\<rparr>"

definition sampleConfig :: "string \<Rightarrow> AIConfig" where
  "sampleConfig m =
     \<lparr>model = Some m, apiKey = Some ''Bearer   abc123  '', baseURL = Some ''http://host/v1/''\<rparr>"

definition sampleVideo :: VideoConfig where
  "sampleVideo =
     \<lparr>videoPrompt = Some ''a cat'', duration = Some 5, videoAspectRatio = Some ''16:9'',
      videoImageBase64 = None, videoFile = None, frameBase64List = None, frameCount = None\<rparr>"

definition emptyResponse :: response where
  "emptyResponse = \<lparr>outputObj = None, dataItems = None, images = None\<rparr>"

definition outputResponse :: "string option \<Rightarrow> string option \<Rightarrow> string option \<Rightarrow> response" where
  "outputResponse u b t =
     \<lparr>outputObj = Some \<lparr>image_url = u, image_base64 = b, outputText = t\<rparr>,
      dataItems = None, images = None\<rparr>"

text \<open>An answer with one item that has the URL \<open>u\<close>, in \<open>data\<close> and in \<open>images\<close>.\<close>

definition urlAnswer :: "string \<Rightarrow> response" where
  "urlAnswer u = \<lparr>outputObj = None, dataItems = Some [Some u], images = Some [Some u]\<rparr>"

definition pngDownload :: "string option \<Rightarrow> download" where
  "pngDownload ct = \<lparr>content = [137, 80, 78, 71], contentType = ct\<rparr>"

text \<open>A check that is pending on every call but the call number \<open>n\<close> (counted from
  0), where it completes.\<close>

definition pendingResult :: checkResult where
  "pendingResult = \<lparr>completed = False, url = None, error = None\<rparr>"

definition sampleCheck :: "nat \<Rightarrow> nat \<Rightarrow> checkResult" where
  "sampleCheck n i =
     (if i = n then \<lparr>completed = True, url = Some ''http://x/video.mp4'', error = None\<rparr>
      else pendingResult)"

section \<open>Strings: auxiliary facts\<close>

lemma eqIgnoreCase_refl [simp]: "eqIgnoreCase c c"
  by (simp add: eqIgnoreCase_def)

lemma startsWith_iff: "startsWith s p \<longleftrightarrow> (\<exists>b. s = p @ b)"
  by (induction s p rule: startsWith.induct) auto

lemma includesStr_iff: "includesStr s p \<longleftrightarrow> (\<exists>a b. s = a @ p @ b)"
proof (induction s)
  case Nil
  then show ?case by simp
next
  case (Cons c cs)
  have "(\<exists>a b. c # cs = a @ p @ b) \<longleftrightarrow> (\<exists>b. c # cs = p @ b) \<or> (\<exists>a b. cs = a @ p @ b)"
    by (auto simp: Cons_eq_append_conv)
  with Cons show ?case
    by (simp add: startsWith_iff)
qed

lemma matchLiteralI_append: "matchLiteralI p w = Some [] \<Longrightarrow> matchLiteralI p (w @ r) = Some r"
  by (induction p w rule: matchLiteralI.induct) (auto split: if_splits)

lemma matchLiteralI_self: "matchLiteralI p (p @ r) = Some r"
  by (induction p) auto

lemma takeWhile_all: "list_all P ws \<Longrightarrow> takeWhile P (ws @ r) = ws @ takeWhile P r"
  by (induction ws) auto

lemma dropWhile_all: "list_all P ws \<Longrightarrow> dropWhile P (ws @ r) = dropWhile P r"
  by (induction ws) auto

lemma trim_dropWhile: "trim (dropWhile isSpace r) = trim r"
  by (simp add: trim_def)

lemma truthy_Some: "truthy x \<Longrightarrow> \<exists>s. x = Some s \<and> s \<noteq> []"
  by (cases x) (auto simp: truthy_def)

lemma cleanApiKey_strips:
  assumes "matchLiteralI ''Bearer'' w = Some []" "ws \<noteq> []" "list_all isSpace ws"
  shows "cleanApiKey (w @ ws @ rest) = trim rest"
proof -
  have m: "matchLiteralI ''Bearer'' (w @ ws @ rest) = Some (ws @ rest)"
    using assms(1) by (rule matchLiteralI_append)
  have t: "takeWhile isSpace (ws @ rest) \<noteq> []"
    using assms(2,3) by (simp add: takeWhile_all)
  have d: "dropWhile isSpace (ws @ rest) = dropWhile isSpace rest"
    using assms(3) by (rule dropWhile_all)
  show ?thesis
    by (simp add: cleanApiKey_def replaceBearer_def m t d trim_dropWhile)
qed

lemma cleanApiKey_no_prefix:
  assumes "matchLiteralI ''Bearer'' k = None \<or>
           (\<exists>r. matchLiteralI ''Bearer'' k = Some r \<and> takeWhile isSpace r = [])"
  shows "cleanApiKey k = trim k"
  using assms by (auto simp: cleanApiKey_def replaceBearer_def)

lemma not_letter_semicolon: "\<not> isLetter CHR '';''"
  by (simp add: isLetter_def code_def)

lemma replaceDataImage_strips:
  assumes "sub \<noteq> []" "list_all isLetter sub"
  shows "replaceDataImage (''data:image/'' @ sub @ '';base64,'' @ payload) = payload"
proof -
  define r where "r = sub @ '';base64,'' @ payload"
  define s where "s = ''data:image/'' @ r"
  have m: "matchLiteralI ''data:image/'' s = Some r"
    unfolding s_def by (rule matchLiteralI_self)
  have t: "takeWhile isLetter r = sub"
    unfolding r_def using assms(2) by (simp add: takeWhile_all not_letter_semicolon)
  have d: "dropWhile isLetter r = '';base64,'' @ payload"
    unfolding r_def using assms(2) by (simp add: dropWhile_all not_letter_semicolon)
  have b: "matchLiteralI '';base64,'' (dropWhile isLetter r) = Some payload"
    unfolding d by (rule matchLiteralI_self)
  have "replaceDataImage s = payload"
    by (simp add: replaceDataImage_def m t b assms(1))
  then show ?thesis
    unfolding s_def r_def .
qed

section \<open>Adapters: auxiliary facts\<close>

lemma fst_postThen: "\<exists>evs. fst (postThen env u b hs t k) = HttpPost u b hs t # evs"
  by (cases "axiosPost env u b hs") (auto simp: postThen_def split: prod.splits)

lemma fst_catching: "fst (catching env fallback r) = fst r"
  by (cases r; cases "snd r") (auto simp: catching_def)

lemma modelScopeNative_valid:
  assumes "truthy (model config)" "truthy (apiKey config)" "truthy (prompt input)"
  shows "modelScopeNative env input config =
           catching env ModelScopeImageFailed
             (postThen env (nativeUrl config) (nativeRequestData input)
                (jsonHeaders (cleanApiKey (template (apiKey config)))) 120000
                (nativeResponse env input))"
  using assms by (simp add: modelScopeNative_def)

lemma native_header:
  assumes "truthy (model config)" "truthy (apiKey config)" "truthy (prompt input)"
  shows "\<exists>u b evs. fst (modelScopeNative env input config) =
           HttpPost u b (jsonHeaders (cleanApiKey (template (apiKey config)))) 120000 # evs"
  unfolding modelScopeNative_valid[OF assms] fst_catching using fst_postThen by blast

lemma zhipu_header:
  assumes "apiKey config = Some k"
  shows "\<exists>u b evs. fst (generateZhipuImage env input config) =
           HttpPost u b (jsonHeaders (cleanApiKey k)) 120000 # evs"
  using fst_postThen by (simp add: generateZhipuImage_def assms fst_catching) blast

lemma modelScope_header:
  assumes "apiKey config = Some k"
  shows "\<exists>u b evs. fst (generateModelScopeImage env input config) =
           HttpPost u b (jsonHeaders (cleanApiKey k)) 120000 # evs"
  using fst_postThen by (simp add: generateModelScopeImage_def assms fst_catching) blast

lemma selectAdapter_Inr:
  "selectAdapter config = Inr a \<Longrightarrow> truthy (model config) \<and> truthy (apiKey config)"
  unfolding selectAdapter_def by (simp split: if_splits)

lemma authorization_jsonHeaders:
  "authorization (HttpPost u b (jsonHeaders k) t) = Some (''Bearer '' @ k)"
  by (simp add: jsonHeaders_def)

lemma dispatcher_header:
  assumes "selectAdapter config = Inr a" and "\<not> isTextModel config"
  shows "\<exists>e evs. fst (imageDispatcher env input config) = e # evs \<and>
           authorization e = Some (''Bearer '' @ cleanApiKey (template (apiKey config)))"
proof -
  from assms(1) obtain k where k: "apiKey config = Some k"
    using selectAdapter_Inr truthy_Some by blast
  have t: "template (apiKey config) = k"
    by (simp add: k template_def)
  show ?thesis
  proof (cases a)
    case ZhipuAdapter
    then have "imageDispatcher env input config = generateZhipuImage env input config"
      using assms(1) by (simp add: imageDispatcher_def)
    with zhipu_header[OF k, of env input] show ?thesis
      unfolding t using authorization_jsonHeaders by metis
  next
    case ModelScopeAdapter
    then have "imageDispatcher env input config = generateModelScopeImage env input config"
      using assms(1) by (simp add: imageDispatcher_def)
    with modelScope_header[OF k, of env input] show ?thesis
      unfolding t using authorization_jsonHeaders by metis
  next
    case OpenAICompatibleAdapter
    then have "imageDispatcher env input config = openAICompatible env input config"
      using assms(1) by (simp add: imageDispatcher_def)
    moreover have "fst (openAICompatible env input config) = [imageCall input config]"
      using assms(2) by (simp add: openAICompatible_def split: sum.splits)
    moreover have "authorization (imageCall input config) =
        Some (''Bearer '' @ cleanApiKey (template (apiKey config)))"
      by (simp add: imageCall_def)
    ultimately show ?thesis by simp
  qed
qed

section \<open>Properties\<close>

subsection \<open>The API key in the Authorization header\<close>

text \<open>
  Where the key is cleaned: a leading \<open>Bearer\<close> (in any case) with the white space
  after it is removed and the rest is trimmed, so that \<open>"Bearer   abc123  "\<close> becomes
  \<open>"abc123"\<close>; a key without such a prefix is only trimmed. The native ModelScope
  adapter and the image dispatcher (on its Zhipu and ModelScope paths and on the
  \<open>generateImage\<close> path) write the cleaned key after \<open>Bearer\<close> in the Authorization
  header.
\<close>

lemma apiKey_cleaned_for_authorization:
  "cleanApiKey ''Bearer   abc123  '' = ''abc123'' \<and>
   (matchLiteralI ''Bearer'' w = Some [] \<and> ws \<noteq> [] \<and> list_all isSpace ws \<longrightarrow>
      cleanApiKey (w @ ws @ rest) = trim rest) \<and>
   (matchLiteralI ''Bearer'' k = None \<longrightarrow> cleanApiKey k = trim k) \<and>
   (truthy (model config) \<and> truthy (apiKey config) \<and> truthy (prompt input) \<longrightarrow>
      (\<exists>u b evs. fst (modelScopeNative env input config) =
         HttpPost u b
           [(''Authorization'', ''Bearer '' @ cleanApiKey (template (apiKey config))),
            (''Content-Type'', ''application/json'')] 120000 # evs)) \<and>
   (selectAdapter config = Inr a \<and> \<not> isTextModel config \<longrightarrow>
      (\<exists>e evs. fst (imageDispatcher env input config) = e # evs \<and>
         authorization e = Some (''Bearer '' @ cleanApiKey (template (apiKey config)))))"
proof -
  have ex: "cleanApiKey ''Bearer   abc123  '' = ''abc123''"
    by code_simp
  have native: "truthy (model config) \<and> truthy (apiKey config) \<and> truthy (prompt input) \<longrightarrow>
      (\<exists>u b evs. fst (modelScopeNative env input config) =
         HttpPost u b
           [(''Authorization'', ''Bearer '' @ cleanApiKey (template (apiKey config))),
            (''Content-Type'', ''application/json'')] 120000 # evs)"
    using native_header[of config input env] unfolding jsonHeaders_def by blast
  show ?thesis
    using ex native cleanApiKey_strips[of w ws rest] cleanApiKey_no_prefix[of k]
      dispatcher_header[of config a env input]
    by blast
qed

text \<open>The property at concrete keys and configurations.\<close>

lemma apiKey_cleaned_for_authorization_witness:
  "cleanApiKey (''bEARER'' @ [CHR 0x09, CHR '' ''] @ ''tok  '') = trim ''tok  '' \<and>
   cleanApiKey '' tok  '' = trim '' tok  '' \<and>
   (\<exists>u b evs. fst (modelScopeNative (sampleEnv emptyResponse (pngDownload None)) sampleInput
                      (sampleConfig ''Tongyi-MAI/Z-Image-Turbo'')) =
      HttpPost u b
        [(''Authorization'', ''Bearer abc123''), (''Content-Type'', ''application/json'')]
        120000 # evs) \<and>
   (\<exists>e evs. fst (imageDispatcher (sampleEnv emptyResponse (pngDownload None)) sampleInput
                    (sampleConfig ''cogview-4'')) = e # evs \<and>
      authorization e = Some ''Bearer abc123'')"
proof -
  have h1: "matchLiteralI ''Bearer'' ''bEARER'' = Some [] \<and> [CHR 0x09, CHR '' ''] \<noteq> [] \<and>
            list_all isSpace [CHR 0x09, CHR '' '']"
    by code_simp
  have h2: "matchLiteralI ''Bearer'' '' tok  '' = None"
    by code_simp
  have h3: "truthy (model (sampleConfig ''Tongyi-MAI/Z-Image-Turbo'')) \<and>
            truthy (apiKey (sampleConfig ''Tongyi-MAI/Z-Image-Turbo'')) \<and> truthy (prompt sampleInput)"
    by code_simp
  have h4: "selectAdapter (sampleConfig ''cogview-4'') = Inr ZhipuAdapter \<and>
            \<not> isTextModel (sampleConfig ''cogview-4'')"
    by code_simp
  have k1: "cleanApiKey (template (apiKey (sampleConfig ''Tongyi-MAI/Z-Image-Turbo''))) = ''abc123''"
    by code_simp
  have k2: "cleanApiKey (template (apiKey (sampleConfig ''cogview-4''))) = ''abc123''"
    by code_simp
  note t1 = apiKey_cleaned_for_authorization[of "''bEARER''" "[CHR 0x09, CHR '' '']" "''tok  ''" "'' tok  ''"
        "sampleConfig ''Tongyi-MAI/Z-Image-Turbo''" sampleInput "sampleEnv emptyResponse (pngDownload None)"]
  note t2 = apiKey_cleaned_for_authorization[of "''bEARER''" "[CHR 0x09, CHR '' '']" "''tok  ''" "'' tok  ''"
        "sampleConfig ''cogview-4''" sampleInput "sampleEnv emptyResponse (pngDownload None)" ZhipuAdapter]
  show ?thesis
    using h1 h2 h3 h4 t1 t2 unfolding k1 k2 by simp
qed

subsection \<open>The data URI prefix of a reference image\<close>

lemma imagePart_first:
  "imagePart (input\<lparr>imageBase64 := Some (first # rest)\<rparr>) = [(''image'', JString (replaceDataImage first))]"
  by (simp add: imagePart_def)

lemma nativeRequestData_first:
  "\<exists>params. nativeRequestData (input\<lparr>imageBase64 := Some (first # rest)\<rparr>) =
     JObject [(''input'', JObject [(''prompt'', jsOfString (prompt input)),
                                  (''image'', JString (replaceDataImage first))]),
              (''parameters'', params)]"
  by (simp add: nativeRequestData_def)

text \<open>
  The prefix of a data URI whose subtype has a character that is no letter, as in
  \<open>data:image/svg+xml;base64,\<close>, is not removed.
\<close>

lemma data_image_prefix_kept_for_svg:
  "replaceDataImage ''data:image/svg+xml;base64,PHN2Zz4='' = ''data:image/svg+xml;base64,PHN2Zz4='' \<and>
   imagePart (sampleInput\<lparr>imageBase64 := Some [''data:image/svg+xml;base64,PHN2Zz4='']\<rparr>) =
     [(''image'', JString ''data:image/svg+xml;base64,PHN2Zz4='')] \<and>
   nativeRequestData (sampleInput\<lparr>imageBase64 := Some [''data:image/svg+xml;base64,PHN2Zz4='']\<rparr>) =
     JObject [(''input'', JObject [(''prompt'', JString ''a cat''),
                                  (''image'', JString ''data:image/svg+xml;base64,PHN2Zz4='')]),
              (''parameters'', JObject [])]"
  by code_simp

text \<open>
  Where the reference image starts with \<open>data:image/\<close>, a subtype of one or more
  letters and \<open>;base64,\<close>, the adapters put the payload after that prefix into the
  request body; \<open>"data:image/png;base64,AAA="\<close> is forwarded as \<open>"AAA="\<close>.
\<close>

lemma data_image_prefix_stripped:
  "replaceDataImage ''data:image/png;base64,AAA='' = ''AAA='' \<and>
   (sub \<noteq> [] \<and> list_all isLetter sub \<longrightarrow>
      replaceDataImage (''data:image/'' @ sub @ '';base64,'' @ payload) = payload \<and>
      imagePart (input\<lparr>imageBase64 := Some ((''data:image/'' @ sub @ '';base64,'' @ payload) # rest)\<rparr>) =
        [(''image'', JString payload)] \<and>
      (\<exists>params.
         nativeRequestData
           (input\<lparr>imageBase64 := Some ((''data:image/'' @ sub @ '';base64,'' @ payload) # rest)\<rparr>) =
         JObject [(''input'', JObject [(''prompt'', jsOfString (prompt input)),
                                      (''image'', JString payload)]),
                  (''parameters'', params)]))"
proof -
  have ex: "replaceDataImage ''data:image/png;base64,AAA='' = ''AAA=''"
    by code_simp
  have gen: "replaceDataImage (''data:image/'' @ sub @ '';base64,'' @ payload) = payload \<and>
      imagePart (input\<lparr>imageBase64 := Some ((''data:image/'' @ sub @ '';base64,'' @ payload) # rest)\<rparr>) =
        [(''image'', JString payload)] \<and>
      (\<exists>params.
         nativeRequestData
           (input\<lparr>imageBase64 := Some ((''data:image/'' @ sub @ '';base64,'' @ payload) # rest)\<rparr>) =
         JObject [(''input'', JObject [(''prompt'', jsOfString (prompt input)),
                                      (''image'', JString payload)]),
                  (''parameters'', params)])"
    if h: "sub \<noteq> []" "list_all isLetter sub"
  proof -
    define img where "img = ''data:image/'' @ sub @ '';base64,'' @ payload"
    have r: "replaceDataImage img = payload"
      unfolding img_def using h by (rule replaceDataImage_strips)
    show ?thesis
      using r imagePart_first[where input=input and first=img and rest=rest]
        nativeRequestData_first[where input=input and first=img and rest=rest]
      unfolding img_def[symmetric] by simp
  qed
  from ex gen show ?thesis by blast
qed

lemma data_image_prefix_stripped_witness:
  "replaceDataImage ''data:image/jpeg;base64,/9j/4AAQ'' = ''/9j/4AAQ'' \<and>
   imagePart (sampleInput\<lparr>imageBase64 := Some [''data:image/jpeg;base64,/9j/4AAQ'', ''other'']\<rparr>) =
     [(''image'', JString ''/9j/4AAQ'')]"
proof -
  have h: "''jpeg'' \<noteq> [] \<and> list_all isLetter ''jpeg''"
    by code_simp
  show ?thesis
    using h data_image_prefix_stripped[where sub="''jpeg''" and payload="''/9j/4AAQ''"
        and input=sampleInput and rest="[''other'']"]
    by simp
qed

subsection \<open>The choice of the adapter\<close>

lemma selectAdapter_cases:
  assumes "truthy (model config)" "truthy (apiKey config)"
  shows "selectAdapter config =
     (if includesStr (template (model config)) ''cogview'' \<or>
         includesStr (template (model config)) ''GLM-Image''
        then Inr ZhipuAdapter
      else if includesStr (template (model config)) ''Z-Image'' \<or>
              includesStr (template (model config)) ''modelscope'' \<or>
              includesStr (template (model config)) ''/''
        then Inr ModelScopeAdapter
      else if \<not> truthy (baseURL config) then Inl (Error MissingBaseUrl)
      else Inr OpenAICompatibleAdapter)"
  using assms by (simp add: selectAdapter_def)

lemma selectAdapterVariant_cases:
  assumes "truthy (model config)" "truthy (apiKey config)"
  shows "map_sum id fst (selectAdapterVariant config) =
     (if includesStr (toLowerCase (template (model config))) ''cogview'' \<or>
         includesStr (toLowerCase (template (model config))) ''glm-image''
        then Inr ZhipuAdapter
      else if includesStr (template (model config)) ''/'' \<or>
              includesStr (toLowerCase (template (model config))) ''modelscope'' \<or>
              includesStr (toLowerCase (template (model config))) ''z-image''
        then Inr ModelScopeAdapter
      else if variantBaseURL config = [] then Inl (Error MissingBaseUrl)
      else Inr OpenAICompatibleAdapter)"
  using assms by (simp add: selectAdapterVariant_def Let_def)

lemma keywords_cogview4:
  "includesStr ''cogview-4'' ''cogview'' \<and> includesStr (toLowerCase ''cogview-4'') ''cogview''"
  by code_simp

lemma keywords_tongyi:
  "\<not> includesStr ''Tongyi-MAI/Z-Image-Turbo'' ''cogview'' \<and>
   \<not> includesStr ''Tongyi-MAI/Z-Image-Turbo'' ''GLM-Image'' \<and>
   includesStr ''Tongyi-MAI/Z-Image-Turbo'' ''Z-Image'' \<and>
   \<not> includesStr (toLowerCase ''Tongyi-MAI/Z-Image-Turbo'') ''cogview'' \<and>
   \<not> includesStr (toLowerCase ''Tongyi-MAI/Z-Image-Turbo'') ''glm-image'' \<and>
   includesStr ''Tongyi-MAI/Z-Image-Turbo'' ''/''"
  by code_simp

lemma keywords_gpt:
  "\<not> includesStr ''gpt-image-1'' ''cogview'' \<and>
   \<not> includesStr ''gpt-image-1'' ''GLM-Image'' \<and>
   \<not> includesStr ''gpt-image-1'' ''Z-Image'' \<and>
   \<not> includesStr ''gpt-image-1'' ''modelscope'' \<and>
   \<not> includesStr ''gpt-image-1'' ''/'' \<and>
   \<not> includesStr (toLowerCase ''gpt-image-1'') ''cogview'' \<and>
   \<not> includesStr (toLowerCase ''gpt-image-1'') ''glm-image'' \<and>
   \<not> includesStr (toLowerCase ''gpt-image-1'') ''modelscope'' \<and>
   \<not> includesStr (toLowerCase ''gpt-image-1'') ''z-image''"
  by code_simp

text \<open>
  Claim C1. With a model name and an API key, the dispatcher chooses one adapter by
  the first test that holds: the Zhipu key words, then the ModelScope key words or a
  slash, then the OpenAI-compatible path (which needs a base URL). The model
  \<open>cogview-4\<close> goes to the Zhipu adapter, \<open>Tongyi-MAI/Z-Image-Turbo\<close> to the ModelScope
  adapter, and \<open>gpt-image-1\<close> with a base URL to the OpenAI-compatible path; the
  invocation then is the invocation of the chosen adapter. The variant of the
  dispatcher makes the same tests on the lower-cased name.
\<close>

theorem dispatcher_first_match_wins:
  "(truthy (model config) \<and> truthy (apiKey config) \<longrightarrow>
      selectAdapter config =
        (if includesStr (template (model config)) ''cogview'' \<or>
            includesStr (template (model config)) ''GLM-Image''
           then Inr ZhipuAdapter
         else if includesStr (template (model config)) ''Z-Image'' \<or>
                 includesStr (template (model config)) ''modelscope'' \<or>
                 includesStr (template (model config)) ''/''
           then Inr ModelScopeAdapter
         else if \<not> truthy (baseURL config) then Inl (Error MissingBaseUrl)
         else Inr OpenAICompatibleAdapter) \<and>
      map_sum id fst (selectAdapterVariant config) =
        (if includesStr (toLowerCase (template (model config))) ''cogview'' \<or>
            includesStr (toLowerCase (template (model config))) ''glm-image''
           then Inr ZhipuAdapter
         else if includesStr (template (model config)) ''/'' \<or>
                 includesStr (toLowerCase (template (model config))) ''modelscope'' \<or>
                 includesStr (toLowerCase (template (model config))) ''z-image''
           then Inr ModelScopeAdapter
         else if variantBaseURL config = [] then Inl (Error MissingBaseUrl)
         else Inr OpenAICompatibleAdapter)) \<and>
   (selectAdapter config = Inr ZhipuAdapter \<longrightarrow>
      imageDispatcher env input config = generateZhipuImage env input config) \<and>
   (selectAdapter config = Inr ModelScopeAdapter \<longrightarrow>
      imageDispatcher env input config = generateModelScopeImage env input config) \<and>
   (selectAdapter config = Inr OpenAICompatibleAdapter \<longrightarrow>
      imageDispatcher env input config = openAICompatible env input config) \<and>
   (truthy (apiKey config) \<and> model config = Some ''cogview-4'' \<longrightarrow>
      selectAdapter config = Inr ZhipuAdapter \<and>
      map_sum id fst (selectAdapterVariant config) = Inr ZhipuAdapter) \<and>
   (truthy (apiKey config) \<and> model config = Some ''Tongyi-MAI/Z-Image-Turbo'' \<longrightarrow>
      selectAdapter config = Inr ModelScopeAdapter \<and>
      map_sum id fst (selectAdapterVariant config) = Inr ModelScopeAdapter) \<and>
   (truthy (apiKey config) \<and> model config = Some ''gpt-image-1'' \<and>
    truthy (baseURL config) \<and> variantBaseURL config \<noteq> [] \<longrightarrow>
      selectAdapter config = Inr OpenAICompatibleAdapter \<and>
      map_sum id fst (selectAdapterVariant config) = Inr OpenAICompatibleAdapter)"
proof -
  have cog: "selectAdapter config = Inr ZhipuAdapter \<and>
      map_sum id fst (selectAdapterVariant config) = Inr ZhipuAdapter"
    if "truthy (apiKey config)" "model config = Some ''cogview-4''"
  proof -
    have m: "truthy (model config)" "template (model config) = ''cogview-4''"
      using that(2) by (simp_all add: truthy_def template_def)
    show ?thesis
      unfolding selectAdapter_cases[OF m(1) that(1)] selectAdapterVariant_cases[OF m(1) that(1)] m(2)
      using keywords_cogview4 by simp
  qed
  have ton: "selectAdapter config = Inr ModelScopeAdapter \<and>
      map_sum id fst (selectAdapterVariant config) = Inr ModelScopeAdapter"
    if "truthy (apiKey config)" "model config = Some ''Tongyi-MAI/Z-Image-Turbo''"
  proof -
    have m: "truthy (model config)" "template (model config) = ''Tongyi-MAI/Z-Image-Turbo''"
      using that(2) by (simp_all add: truthy_def template_def)
    show ?thesis
      unfolding selectAdapter_cases[OF m(1) that(1)] selectAdapterVariant_cases[OF m(1) that(1)] m(2)
      using keywords_tongyi by (simp only: if_True if_False simp_thms)
  qed
  have gpt: "selectAdapter config = Inr OpenAICompatibleAdapter \<and>
      map_sum id fst (selectAdapterVariant config) = Inr OpenAICompatibleAdapter"
    if "truthy (apiKey config)" "model config = Some ''gpt-image-1''"
       "truthy (baseURL config)" "variantBaseURL config \<noteq> []"
  proof -
    have m: "truthy (model config)" "template (model config) = ''gpt-image-1''"
      using that(2) by (simp_all add: truthy_def template_def)
    show ?thesis
      unfolding selectAdapter_cases[OF m(1) that(1)] selectAdapterVariant_cases[OF m(1) that(1)] m(2)
      using keywords_gpt that(3,4) by (simp only: if_True if_False simp_thms)
  qed
  have disp: "(selectAdapter config = Inr ZhipuAdapter \<longrightarrow>
      imageDispatcher env input config = generateZhipuImage env input config) \<and>
   (selectAdapter config = Inr ModelScopeAdapter \<longrightarrow>
      imageDispatcher env input config = generateModelScopeImage env input config) \<and>
   (selectAdapter config = Inr OpenAICompatibleAdapter \<longrightarrow>
      imageDispatcher env input config = openAICompatible env input config)"
    by (simp add: imageDispatcher_def)
  have gen: "truthy (model config) \<and> truthy (apiKey config) \<longrightarrow>
      selectAdapter config =
        (if includesStr (template (model config)) ''cogview'' \<or>
            includesStr (template (model config)) ''GLM-Image''
           then Inr ZhipuAdapter
         else if includesStr (template (model config)) ''Z-Image'' \<or>
                 includesStr (template (model config)) ''modelscope'' \<or>
                 includesStr (template (model config)) ''/''
           then Inr ModelScopeAdapter
         else if \<not> truthy (baseURL config) then Inl (Error MissingBaseUrl)
         else Inr OpenAICompatibleAdapter) \<and>
      map_sum id fst (selectAdapterVariant config) =
        (if includesStr (toLowerCase (template (model config))) ''cogview'' \<or>
            includesStr (toLowerCase (template (model config))) ''glm-image''
           then Inr ZhipuAdapter
         else if includesStr (template (model config)) ''/'' \<or>
                 includesStr (toLowerCase (template (model config))) ''modelscope'' \<or>
                 includesStr (toLowerCase (template (model config))) ''z-image''
           then Inr ModelScopeAdapter
         else if variantBaseURL config = [] then Inl (Error MissingBaseUrl)
         else Inr OpenAICompatibleAdapter)"
  proof (intro impI conjI)
    assume h: "truthy (model config) \<and> truthy (apiKey config)"
    show "selectAdapter config =
        (if includesStr (template (model config)) ''cogview'' \<or>
            includesStr (template (model config)) ''GLM-Image''
           then Inr ZhipuAdapter
         else if includesStr (template (model config)) ''Z-Image'' \<or>
                 includesStr (template (model config)) ''modelscope'' \<or>
                 includesStr (template (model config)) ''/''
           then Inr ModelScopeAdapter
         else if \<not> truthy (baseURL config) then Inl (Error MissingBaseUrl)
         else Inr OpenAICompatibleAdapter)"
      by (rule selectAdapter_cases[OF conjunct1[OF h] conjunct2[OF h]])
    show "map_sum id fst (selectAdapterVariant config) =
        (if includesStr (toLowerCase (template (model config))) ''cogview'' \<or>
            includesStr (toLowerCase (template (model config))) ''glm-image''
           then Inr ZhipuAdapter
         else if includesStr (template (model config)) ''/'' \<or>
                 includesStr (toLowerCase (template (model config))) ''modelscope'' \<or>
                 includesStr (toLowerCase (template (model config))) ''z-image''
           then Inr ModelScopeAdapter
         else if variantBaseURL config = [] then Inl (Error MissingBaseUrl)
         else Inr OpenAICompatibleAdapter)"
      by (rule selectAdapterVariant_cases[OF conjunct1[OF h] conjunct2[OF h]])
  qed
  have cog': "truthy (apiKey config) \<and> model config = Some ''cogview-4'' \<longrightarrow>
      selectAdapter config = Inr ZhipuAdapter \<and>
      map_sum id fst (selectAdapterVariant config) = Inr ZhipuAdapter"
    using cog by (intro impI) (elim conjE)
  have ton': "truthy (apiKey config) \<and> model config = Some ''Tongyi-MAI/Z-Image-Turbo'' \<longrightarrow>
      selectAdapter config = Inr ModelScopeAdapter \<and>
      map_sum id fst (selectAdapterVariant config) = Inr ModelScopeAdapter"
    using ton by (intro impI) (elim conjE)
  have gpt': "truthy (apiKey config) \<and> model config = Some ''gpt-image-1'' \<and>
    truthy (baseURL config) \<and> variantBaseURL config \<noteq> [] \<longrightarrow>
      selectAdapter config = Inr OpenAICompatibleAdapter \<and>
      map_sum id fst (selectAdapterVariant config) = Inr OpenAICompatibleAdapter"
    using gpt by (intro impI) (elim conjE)
  show ?thesis
    by (rule conjI[OF gen conjI[OF conjunct1[OF disp] conjI[OF conjunct1[OF conjunct2[OF disp]]
          conjI[OF conjunct2[OF conjunct2[OF disp]] conjI[OF cog' conjI[OF ton' gpt']]]]]])
qed


theorem dispatcher_first_match_wins_witness:
  "(selectAdapter (sampleConfig ''cogview-4'') = Inr ZhipuAdapter \<and>
    map_sum id fst (selectAdapterVariant (sampleConfig ''cogview-4'')) = Inr ZhipuAdapter) \<and>
   (selectAdapter (sampleConfig ''Tongyi-MAI/Z-Image-Turbo'') = Inr ModelScopeAdapter \<and>
    map_sum id fst (selectAdapterVariant (sampleConfig ''Tongyi-MAI/Z-Image-Turbo'')) =
      Inr ModelScopeAdapter) \<and>
   (selectAdapter (sampleConfig ''gpt-image-1'') = Inr OpenAICompatibleAdapter \<and>
    map_sum id fst (selectAdapterVariant (sampleConfig ''gpt-image-1'')) =
      Inr OpenAICompatibleAdapter) \<and>
   imageDispatcher (sampleEnv emptyResponse (pngDownload None)) sampleInput (sampleConfig ''cogview-4'') =
     generateZhipuImage (sampleEnv emptyResponse (pngDownload None)) sampleInput
       (sampleConfig ''cogview-4'')"
proof -
  have k: "truthy (apiKey (sampleConfig m))" and m: "model (sampleConfig m) = Some m" for m
    by (simp_all add: sampleConfig_def truthy_def)
  have b: "truthy (baseURL (sampleConfig ''gpt-image-1''))"
    by (simp add: sampleConfig_def truthy_def)
  have v: "variantBaseURL (sampleConfig ''gpt-image-1'') \<noteq> []"
    by code_simp
  note t = dispatcher_first_match_wins[where env="sampleEnv emptyResponse (pngDownload None)"
      and input=sampleInput]
  note t1 = t[where config="sampleConfig ''cogview-4''"]
  note t2 = t[where config="sampleConfig ''Tongyi-MAI/Z-Image-Turbo''"]
  note t3 = t[where config="sampleConfig ''gpt-image-1''"]
  have r1: "selectAdapter (sampleConfig ''cogview-4'') = Inr ZhipuAdapter \<and>
    map_sum id fst (selectAdapterVariant (sampleConfig ''cogview-4'')) = Inr ZhipuAdapter"
    by (rule mp[OF t1[THEN conjunct2, THEN conjunct2, THEN conjunct2, THEN conjunct2, THEN conjunct1]
          conjI[OF k m]])
  have r2: "selectAdapter (sampleConfig ''Tongyi-MAI/Z-Image-Turbo'') = Inr ModelScopeAdapter \<and>
    map_sum id fst (selectAdapterVariant (sampleConfig ''Tongyi-MAI/Z-Image-Turbo'')) =
      Inr ModelScopeAdapter"
    by (rule mp[OF t2[THEN conjunct2, THEN conjunct2, THEN conjunct2, THEN conjunct2, THEN conjunct2,
          THEN conjunct1] conjI[OF k m]])
  have r3: "selectAdapter (sampleConfig ''gpt-image-1'') = Inr OpenAICompatibleAdapter \<and>
    map_sum id fst (selectAdapterVariant (sampleConfig ''gpt-image-1'')) =
      Inr OpenAICompatibleAdapter"
    by (rule mp[OF t3[THEN conjunct2, THEN conjunct2, THEN conjunct2, THEN conjunct2, THEN conjunct2,
          THEN conjunct2] conjI[OF k conjI[OF m conjI[OF b v]]]])
  have d: "imageDispatcher (sampleEnv emptyResponse (pngDownload None)) sampleInput (sampleConfig ''cogview-4'') =
     generateZhipuImage (sampleEnv emptyResponse (pngDownload None)) sampleInput
       (sampleConfig ''cogview-4'')"
    by (rule mp[OF t1[THEN conjunct2, THEN conjunct1] conjunct1[OF r1]])
  show ?thesis
    by (rule conjI[OF r1 conjI[OF r2 conjI[OF r3 d]]])
qed

subsection \<open>Only the first reference image is sent\<close>

lemma imagePart_rest:
  "imagePart (input\<lparr>imageBase64 := Some (first # rest)\<rparr>) =
   imagePart (input\<lparr>imageBase64 := Some [first]\<rparr>)"
  by (simp add: imagePart_def)

lemma nativeRequestData_rest:
  "nativeRequestData (input\<lparr>imageBase64 := Some (first # rest)\<rparr>) =
   nativeRequestData (input\<lparr>imageBase64 := Some [first]\<rparr>)"
  by (simp add: nativeRequestData_def)

lemma zhipuBody_rest:
  "zhipuBody (input\<lparr>imageBase64 := Some (first # rest)\<rparr>) config =
   zhipuBody (input\<lparr>imageBase64 := Some [first]\<rparr>) config"
  by (simp add: zhipuBody_def imagePart_def)

lemma modelScopeBody_rest:
  "modelScopeBody (input\<lparr>imageBase64 := Some (first # rest)\<rparr>) config =
   modelScopeBody (input\<lparr>imageBase64 := Some [first]\<rparr>) config"
  by (simp add: modelScopeBody_def imagePart_def)

lemma legacyImage_rest:
  "legacyImage (input\<lparr>imageBase64 := Some (first # rest)\<rparr>) =
   legacyImage (input\<lparr>imageBase64 := Some [first]\<rparr>)"
  by (simp add: legacyImage_def)

lemma nativeResponse_rest:
  "nativeResponse env (input\<lparr>imageBase64 := xs\<rparr>) = nativeResponse env (input\<lparr>imageBase64 := ys\<rparr>)"
  by (rule ext) (simp add: nativeResponse_def split: option.splits)

lemma urlResponse_rest:
  "urlResponse env (input\<lparr>imageBase64 := xs\<rparr>) = urlResponse env (input\<lparr>imageBase64 := ys\<rparr>)"
  by (intro ext) (simp add: urlResponse_def split: option.splits)

lemma modelScopeNative_rest:
  "modelScopeNative env (input\<lparr>imageBase64 := Some (first # rest)\<rparr>) config =
   modelScopeNative env (input\<lparr>imageBase64 := Some [first]\<rparr>) config"
  unfolding modelScopeNative_def nativeRequestData_rest[where input=input and first=first and rest=rest]
    nativeResponse_rest[where env=env and input=input and xs="Some (first # rest)" and ys="Some [first]"]
  by simp

lemma generateZhipuImage_rest:
  "generateZhipuImage env (input\<lparr>imageBase64 := Some (first # rest)\<rparr>) config =
   generateZhipuImage env (input\<lparr>imageBase64 := Some [first]\<rparr>) config"
  unfolding generateZhipuImage_def zhipuBody_rest[where input=input and first=first and rest=rest]
    urlResponse_rest[where env=env and input=input and xs="Some (first # rest)" and ys="Some [first]"]
  by simp

lemma generateModelScopeImage_rest:
  "generateModelScopeImage env (input\<lparr>imageBase64 := Some (first # rest)\<rparr>) config =
   generateModelScopeImage env (input\<lparr>imageBase64 := Some [first]\<rparr>) config"
  unfolding generateModelScopeImage_def modelScopeBody_rest[where input=input and first=first and rest=rest]
    urlResponse_rest[where env=env and input=input and xs="Some (first # rest)" and ys="Some [first]"]
  by simp

text \<open>
  Claim C10. With two or more entries in \<open>imageBase64\<close>, the native ModelScope
  adapter, \<open>generateZhipuImage\<close> and \<open>generateModelScopeImage\<close> build the request body
  from the first entry only: the whole invocation, with the request that is sent, is
  the one for the first entry alone, whatever the later entries are.
\<close>

theorem later_images_have_no_effect:
  "nativeRequestData (input\<lparr>imageBase64 := Some (first # second # rest)\<rparr>) =
     nativeRequestData (input\<lparr>imageBase64 := Some [first]\<rparr>) \<and>
   zhipuBody (input\<lparr>imageBase64 := Some (first # second # rest)\<rparr>) config =
     zhipuBody (input\<lparr>imageBase64 := Some [first]\<rparr>) config \<and>
   modelScopeBody (input\<lparr>imageBase64 := Some (first # second # rest)\<rparr>) config =
     modelScopeBody (input\<lparr>imageBase64 := Some [first]\<rparr>) config \<and>
   modelScopeNative env (input\<lparr>imageBase64 := Some (first # second # rest)\<rparr>) config =
     modelScopeNative env (input\<lparr>imageBase64 := Some [first]\<rparr>) config \<and>
   generateZhipuImage env (input\<lparr>imageBase64 := Some (first # second # rest)\<rparr>) config =
     generateZhipuImage env (input\<lparr>imageBase64 := Some [first]\<rparr>) config \<and>
   generateModelScopeImage env (input\<lparr>imageBase64 := Some (first # second # rest)\<rparr>) config =
     generateModelScopeImage env (input\<lparr>imageBase64 := Some [first]\<rparr>) config"
  by (intro conjI nativeRequestData_rest zhipuBody_rest modelScopeBody_rest
      modelScopeNative_rest generateZhipuImage_rest generateModelScopeImage_rest)

text \<open>Two inputs that differ in the second image only: the same request, with the
  first image.\<close>

theorem later_images_have_no_effect_witness:
  "zhipuBody (sampleInput\<lparr>imageBase64 := Some [''AAA='', ''BBB='']\<rparr>) (sampleConfig ''cogview-4'') =
     JObject [(''model'', JString ''cogview-4''), (''prompt'', JString ''a cat''),
              (''image'', JString ''AAA='')] \<and>
   zhipuBody (sampleInput\<lparr>imageBase64 := Some [''AAA='', ''CCC='', ''DDD='']\<rparr>) (sampleConfig ''cogview-4'') =
     JObject [(''model'', JString ''cogview-4''), (''prompt'', JString ''a cat''),
              (''image'', JString ''AAA='')]"
proof -
  have one: "zhipuBody (sampleInput\<lparr>imageBase64 := Some [''AAA='']\<rparr>) (sampleConfig ''cogview-4'') =
     JObject [(''model'', JString ''cogview-4''), (''prompt'', JString ''a cat''),
              (''image'', JString ''AAA='')]"
    by code_simp
  note t = later_images_have_no_effect[where input=sampleInput and first="''AAA=''"
      and config="sampleConfig ''cogview-4''" and env="sampleEnv emptyResponse (pngDownload None)"]
  have a: "zhipuBody (sampleInput\<lparr>imageBase64 := Some [''AAA='', ''BBB='']\<rparr>) (sampleConfig ''cogview-4'') =
           zhipuBody (sampleInput\<lparr>imageBase64 := Some [''AAA='']\<rparr>) (sampleConfig ''cogview-4'')"
    by (rule t[where second="''BBB=''" and rest="[]", THEN conjunct2, THEN conjunct1])
  have b: "zhipuBody (sampleInput\<lparr>imageBase64 := Some [''AAA='', ''CCC='', ''DDD='']\<rparr>) (sampleConfig ''cogview-4'') =
           zhipuBody (sampleInput\<lparr>imageBase64 := Some [''AAA='']\<rparr>) (sampleConfig ''cogview-4'')"
    by (rule t[where second="''CCC=''" and rest="[''DDD='']", THEN conjunct2, THEN conjunct1])
  show ?thesis
    unfolding a b using one by simp
qed

subsection \<open>Required prompt and required reference image\<close>

lemma modelScopeNative_no_prompt:
  assumes "\<not> truthy (prompt input)"
  shows "fst (modelScopeNative env input config) = [] \<and>
         snd (modelScopeNative env input config) \<in>
           {Inl (Error MissingModel), Inl (Error MissingApiKey), Inl (Error MissingPrompt)}"
  using assms by (simp add: modelScopeNative_def)

lemma modelScopeLegacy_no_image:
  assumes "imageBase64 input = None \<or> imageBase64 input = Some []" "\<not> truthy (imageUrl input)"
  shows "modelScopeLegacy env input config = ([], Inl (Error LegacyNoImage))"
proof -
  have "legacyImage input = None"
    using assms by (auto simp: legacyImage_def)
  then show ?thesis
    by (simp add: modelScopeLegacy_def)
qed

lemma bigModelVideo_no_input:
  assumes "videoFile v = None" "frameBase64List v = None \<or> frameBase64List v = Some []"
  shows "\<exists>e. bigModelVideo v config = Throws e"
  using assms unfolding bigModelVideo_def by (auto split: if_splits)

text \<open>
  The adapters that check their input. The native ModelScope adapter, which
  generates an image from a prompt, fails before any call when the prompt is absent
  or empty: nothing is done to the outside and an error is thrown (the missing
  prompt, unless the model or the key is missing too). The legacy ModelScope adapter,
  which works on a reference image, fails before any call when there is no entry in
  \<open>imageBase64\<close> and no \<open>imageUrl\<close>. The Zhipu video adapter, which analyses a video,
  throws as its first step when there is neither a video file nor a frame.
\<close>

lemma prompt_and_image_required:
  "(\<not> truthy (prompt input) \<longrightarrow>
      fst (modelScopeNative env input config) = [] \<and>
      snd (modelScopeNative env input config) \<in>
        {Inl (Error MissingModel), Inl (Error MissingApiKey), Inl (Error MissingPrompt)}) \<and>
   ((imageBase64 input = None \<or> imageBase64 input = Some []) \<and> \<not> truthy (imageUrl input) \<longrightarrow>
      modelScopeLegacy env input config = ([], Inl (Error LegacyNoImage))) \<and>
   (videoFile v = None \<and> (frameBase64List v = None \<or> frameBase64List v = Some []) \<longrightarrow>
      (\<exists>e. bigModelVideo v config = Throws e))"
  using modelScopeNative_no_prompt[of input env config]
    modelScopeLegacy_no_image[of input env config] bigModelVideo_no_input[of v config]
  by blast

lemma prompt_and_image_required_witness:
  "modelScopeNative (sampleEnv emptyResponse (pngDownload None)) (sampleInput\<lparr>prompt := None\<rparr>)
     (sampleConfig ''Tongyi-MAI/Z-Image-Turbo'') = ([], Inl (Error MissingPrompt)) \<and>
   modelScopeLegacy (sampleEnv emptyResponse (pngDownload None)) sampleInput
     (sampleConfig ''Tongyi-MAI/Z-Image-Turbo'') = ([], Inl (Error LegacyNoImage)) \<and>
   bigModelVideo sampleVideo (sampleConfig ''glm-4v'') = Throws (Error BigModelVideoNoInput)"
proof -
  let ?env = "sampleEnv emptyResponse (pngDownload None)"
  let ?cfg = "sampleConfig ''Tongyi-MAI/Z-Image-Turbo''"
  note t = prompt_and_image_required[where env="?env" and config="?cfg"]
  have h1: "\<not> truthy (prompt (sampleInput\<lparr>prompt := None\<rparr>))"
    by (simp add: truthy_def)
  have h2: "(imageBase64 sampleInput = None \<or> imageBase64 sampleInput = Some []) \<and>
            \<not> truthy (imageUrl sampleInput)"
    by (simp add: sampleInput_def truthy_def)
  have h3: "videoFile sampleVideo = None \<and>
            (frameBase64List sampleVideo = None \<or> frameBase64List sampleVideo = Some [])"
    by (simp add: sampleVideo_def)
  have a: "fst (modelScopeNative ?env (sampleInput\<lparr>prompt := None\<rparr>) ?cfg) = []"
    using t[where input="sampleInput\<lparr>prompt := None\<rparr>", THEN conjunct1] h1 by blast
  have a': "snd (modelScopeNative ?env (sampleInput\<lparr>prompt := None\<rparr>) ?cfg) = Inl (Error MissingPrompt)"
    by code_simp
  have b: "modelScopeLegacy ?env sampleInput ?cfg = ([], Inl (Error LegacyNoImage))"
    by (rule mp[OF t[where input=sampleInput, THEN conjunct2, THEN conjunct1] h2])
  have c: "\<exists>e. bigModelVideo sampleVideo (sampleConfig ''glm-4v'') = Throws e"
    by (rule mp[OF prompt_and_image_required[where v=sampleVideo and config="sampleConfig ''glm-4v''",
          THEN conjunct2, THEN conjunct2] h3])
  have c': "bigModelVideo sampleVideo (sampleConfig ''glm-4v'') = Throws (Error BigModelVideoNoInput)"
    by code_simp
  have "modelScopeNative ?env (sampleInput\<lparr>prompt := None\<rparr>) ?cfg = ([], Inl (Error MissingPrompt))"
    using a a' by (simp add: prod_eq_iff)
  with b c c' show ?thesis by blast
qed

subsection \<open>The checks of the configuration\<close>

lemma imageDispatcher_checks_configuration:
  "(\<not> truthy (model config) \<longrightarrow> imageDispatcher env input config = ([], Inl (Error MissingModel))) \<and>
   (truthy (model config) \<and> \<not> truthy (apiKey config) \<longrightarrow>
      imageDispatcher env input config = ([], Inl (Error MissingApiKey))) \<and>
   (selectAdapter config = Inl (Error MissingBaseUrl) \<longrightarrow>
      imageDispatcher env input config = ([], Inl (Error MissingBaseUrl)))"
  by (simp add: imageDispatcher_def selectAdapter_def)

lemma videoDispatcher_checks_configuration:
  "(\<not> truthy (apiKey config) \<longrightarrow> videoDispatcher input config = Throws (Error MissingApiKey)) \<and>
   (truthy (apiKey config) \<and> \<not> truthy (model config) \<longrightarrow>
      videoDispatcher input config = Throws (Error MissingModel))"
  by (simp add: videoDispatcher_def)

text \<open>
  Claim C4 asks for the check of the model and of the API key before any HTTP call.
  The image dispatcher and the first video dispatcher make both checks (the two
  lemmas above). The second video dispatcher checks the API key but not the model:
  with an empty model name, a key and a base URL it posts the form, where the other
  two throw the error of the missing model.
\<close>

theorem video_variant_posts_without_model:
  "videoDispatcherVariant sampleVideo
     \<lparr>model = Some [], apiKey = Some ''k'',
      baseURL = Some ''http://host/submit|http://host/query/{id}''\<rparr> =
     Posts ''http://host/submit''
       [(''model'', JString []), (''prompt'', JString ''a cat''), (''seconds'', JNumber 5),
        (''size'', JString ''1920x1080'')] \<and>
   videoDispatcher sampleVideo
     \<lparr>model = Some [], apiKey = Some ''k'',
      baseURL = Some ''http://host/submit|http://host/query/{id}''\<rparr> =
     Throws (Error MissingModel) \<and>
   selectAdapter
     \<lparr>model = Some [], apiKey = Some ''k'',
      baseURL = Some ''http://host/submit|http://host/query/{id}''\<rparr> =
     Inl (Error MissingModel)"
  by code_simp

subsection \<open>The download of an image for base64 output\<close>

lemma catching_Inr: "catching env fallback (evs, Inr v) = (evs, Inr v)"
  by (simp add: catching_def)


lemma postThen_Inr:
  assumes "axiosPost env u b hs = Inr d" "k d = (evs, r)"
  shows "postThen env u b hs t k = (HttpPost u b hs t # evs, r)"
  using assms by (simp add: postThen_def)

lemma urlToBase64_ok:
  assumes "axiosGet env u = Inr res"
  shows "urlToBase64 env u =
    ([HttpGet u],
     Inr (''data:'' @ orElse (contentType res) ''image/png'' @ '';base64,'' @ toBase64 (content res)))"
  using assms by (simp add: urlToBase64_def dataUri_def)

lemma urlResponse_download:
  assumes "firstUrl items = Some u" "resType input = Some ''b64''" "axiosGet env u = Inr res"
  shows "urlResponse env input noUrl items d =
    ([HttpGet u],
     Inr (''data:'' @ orElse (contentType res) ''image/png'' @ '';base64,'' @ toBase64 (content res)))"
  unfolding urlResponse_def assms(1) using assms(2) urlToBase64_ok[OF assms(3)] by simp

lemma generateZhipuImage_download:
  assumes "apiKey config = Some k"
    and "axiosPost env (zhipuUrl config) (zhipuBody input config) (jsonHeaders (cleanApiKey k)) = Inr d"
    and "firstUrl (dataItems d) = Some u" "resType input = Some ''b64''" "axiosGet env u = Inr res"
  shows "generateZhipuImage env input config =
    ([HttpPost (zhipuUrl config) (zhipuBody input config) (jsonHeaders (cleanApiKey k)) 120000,
      HttpGet u],
     Inr (''data:'' @ orElse (contentType res) ''image/png'' @ '';base64,'' @ toBase64 (content res)))"
proof -
  have "postThen env (zhipuUrl config) (zhipuBody input config) (jsonHeaders (cleanApiKey k)) 120000
          (\<lambda>d. urlResponse env input ZhipuNoUrl (dataItems d) d) =
        (HttpPost (zhipuUrl config) (zhipuBody input config) (jsonHeaders (cleanApiKey k)) 120000 #
         [HttpGet u],
         Inr (''data:'' @ orElse (contentType res) ''image/png'' @ '';base64,'' @ toBase64 (content res)))"
    by (rule postThen_Inr[OF assms(2)]) (rule urlResponse_download[OF assms(3,4,5)])
  then show ?thesis
    by (simp add: generateZhipuImage_def assms(1) catching_Inr)
qed

lemma not_class_semicolon: "\<not> isLowerOrSlash CHR '';''"
  by (simp add: isLowerOrSlash_def code_def)

lemma matchesDataUriPattern_lower:
  assumes "ct \<noteq> []" "list_all isLowerOrSlash ct"
  shows "matchesDataUriPattern (''data:'' @ ct @ '';base64,'' @ payload)"
proof -
  define r where "r = ct @ '';base64,'' @ payload"
  have d5: "drop 5 (''data:'' @ r) = r"
    by simp
  have s: "startsWith (''data:'' @ r) ''data:''"
    by (simp add: startsWith_iff)
  have t: "takeWhile isLowerOrSlash r = ct"
    unfolding r_def using assms(2) by (simp add: takeWhile_all not_class_semicolon)
  have d: "dropWhile isLowerOrSlash r = '';base64,'' @ payload"
    unfolding r_def using assms(2) by (simp add: dropWhile_all not_class_semicolon)
  have b: "startsWith (dropWhile isLowerOrSlash r) '';base64,''"
    unfolding d startsWith_iff by blast
  have "matchesDataUriPattern (''data:'' @ r)"
    unfolding matchesDataUriPattern_def d5 t using s b assms(1) by blast
  then show ?thesis
    unfolding r_def .
qed

lemma image_png_class: "''image/png'' \<noteq> [] \<and> list_all isLowerOrSlash ''image/png''"
  by code_simp

lemma sample_apiKey: "apiKey (sampleConfig m) = Some ''Bearer   abc123  ''"
  by (simp add: sampleConfig_def)

lemma sample_post: "axiosPost (sampleEnv d res) u b hs = Inr d"
  by (simp add: sampleEnv_def)

lemma sample_get: "axiosGet (sampleEnv d res) u = Inr res"
  by (simp add: sampleEnv_def)

lemma sample_firstUrl: "firstUrl (dataItems (urlAnswer ''http://x/img.png'')) = Some ''http://x/img.png''"
  by (simp add: urlAnswer_def firstUrl_def truthy_def)

text \<open>
  Claim C8, as stated, fails: the data URI carries the content type that the
  download declares, whatever it is. With \<open>application/octet-stream\<close> the result of
  \<open>generateZhipuImage\<close> does not match \<open>^data:[a-z/]+;base64,\<close>.
\<close>

theorem octet_stream_breaks_pattern:
  "generateZhipuImage
     (sampleEnv (urlAnswer ''http://x/img.png'') (pngDownload (Some ''application/octet-stream'')))
     (sampleInput\<lparr>resType := Some ''b64''\<rparr>) (sampleConfig ''cogview-4'') =
     ([HttpPost ''http://host/v1/images/generations''
         (JObject [(''model'', JString ''cogview-4''), (''prompt'', JString ''a cat'')])
         [(''Authorization'', ''Bearer abc123''), (''Content-Type'', ''application/json'')] 120000,
       HttpGet ''http://x/img.png''],
      Inr ''data:application/octet-stream;base64,iVBORw=='') \<and>
   \<not> matchesDataUriPattern ''data:application/octet-stream;base64,iVBORw==''"
proof -
  let ?res = "pngDownload (Some ''application/octet-stream'')"
  let ?env = "sampleEnv (urlAnswer ''http://x/img.png'') ?res"
  let ?input = "sampleInput\<lparr>resType := Some ''b64''\<rparr>"
  let ?cfg = "sampleConfig ''cogview-4''"
  have v: "zhipuUrl ?cfg = ''http://host/v1/images/generations''"
    "zhipuBody ?input ?cfg = JObject [(''model'', JString ''cogview-4''), (''prompt'', JString ''a cat'')]"
    "jsonHeaders (cleanApiKey ''Bearer   abc123  '') =
       [(''Authorization'', ''Bearer abc123''), (''Content-Type'', ''application/json'')]"
    "''data:'' @ orElse (contentType ?res) ''image/png'' @ '';base64,'' @ toBase64 (content ?res) =
       ''data:application/octet-stream;base64,iVBORw==''"
    by code_simp+
  have a: "generateZhipuImage ?env ?input ?cfg =
     ([HttpPost ''http://host/v1/images/generations''
         (JObject [(''model'', JString ''cogview-4''), (''prompt'', JString ''a cat'')])
         [(''Authorization'', ''Bearer abc123''), (''Content-Type'', ''application/json'')] 120000,
       HttpGet ''http://x/img.png''],
      Inr ''data:application/octet-stream;base64,iVBORw=='')"
    using generateZhipuImage_download[where env="?env" and input="?input" and config="?cfg"
      and k="''Bearer   abc123  ''" and d="urlAnswer ''http://x/img.png''" and u="''http://x/img.png''"
      and res="?res", OF sample_apiKey sample_post sample_firstUrl _ sample_get]
    unfolding v by simp
  have b: "\<not> matchesDataUriPattern ''data:application/octet-stream;base64,iVBORw==''"
    by code_simp
  show ?thesis
    by (rule conjI[OF a b])
qed

text \<open>
  Claim C8, amended. When base64 output is requested (\<open>resType = "b64"\<close>) and the
  provider answers with an image URL, \<open>generateZhipuImage\<close> downloads that URL with one
  GET and returns \<open>data:\<close>, the content type that the download declares (\<open>image/png\<close>
  when it is absent or empty), \<open>;base64,\<close> and the base64 text of the bytes;
  \<open>urlToBase64\<close> does the same for any URL. The result matches
  \<open>^data:[a-z/]+;base64,\<close> whenever the content type is made of lower-case letters and
  slashes, as the default \<open>image/png\<close> is.
\<close>

theorem download_as_data_uri:
  "(apiKey config = Some k \<and>
    axiosPost env (zhipuUrl config) (zhipuBody input config) (jsonHeaders (cleanApiKey k)) = Inr d \<and>
    firstUrl (dataItems d) = Some u \<and> resType input = Some ''b64'' \<and> axiosGet env u = Inr res \<longrightarrow>
      generateZhipuImage env input config =
        ([HttpPost (zhipuUrl config) (zhipuBody input config) (jsonHeaders (cleanApiKey k)) 120000,
          HttpGet u],
         Inr (''data:'' @ orElse (contentType res) ''image/png'' @ '';base64,'' @
              toBase64 (content res)))) \<and>
   (axiosGet env u = Inr res \<longrightarrow>
      urlToBase64 env u =
        ([HttpGet u],
         Inr (''data:'' @ orElse (contentType res) ''image/png'' @ '';base64,'' @
              toBase64 (content res)))) \<and>
   (ct \<noteq> [] \<and> list_all isLowerOrSlash ct \<longrightarrow>
      matchesDataUriPattern (''data:'' @ ct @ '';base64,'' @ payload)) \<and>
   (contentType res = None \<or> contentType res = Some [] \<longrightarrow>
      matchesDataUriPattern
        (''data:'' @ orElse (contentType res) ''image/png'' @ '';base64,'' @ toBase64 (content res)))"
proof -
  have dflt: "matchesDataUriPattern
        (''data:'' @ orElse (contentType res) ''image/png'' @ '';base64,'' @ toBase64 (content res))"
    if "contentType res = None \<or> contentType res = Some []"
  proof -
    have "orElse (contentType res) ''image/png'' = ''image/png''"
      using that by (auto simp: orElse_def)
    then show ?thesis
      using matchesDataUriPattern_lower[OF conjunct1[OF image_png_class] conjunct2[OF image_png_class]]
      by simp
  qed
  show ?thesis
    using generateZhipuImage_download[of config k env input d u res] urlToBase64_ok[of env u res]
      matchesDataUriPattern_lower[of ct payload] dflt
    by blast
qed

theorem download_as_data_uri_witness:
  "generateZhipuImage
     (sampleEnv (urlAnswer ''http://x/img.png'') (pngDownload None))
     (sampleInput\<lparr>resType := Some ''b64''\<rparr>) (sampleConfig ''cogview-4'') =
     ([HttpPost ''http://host/v1/images/generations''
         (JObject [(''model'', JString ''cogview-4''), (''prompt'', JString ''a cat'')])
         [(''Authorization'', ''Bearer abc123''), (''Content-Type'', ''application/json'')] 120000,
       HttpGet ''http://x/img.png''],
      Inr ''data:image/png;base64,iVBORw=='') \<and>
   matchesDataUriPattern ''data:image/png;base64,iVBORw==''"
proof -
  let ?env = "sampleEnv (urlAnswer ''http://x/img.png'') (pngDownload None)"
  let ?input = "sampleInput\<lparr>resType := Some ''b64''\<rparr>"
  let ?cfg = "sampleConfig ''cogview-4''"
  note t = download_as_data_uri[where env="?env" and input="?input" and config="?cfg"
      and k="''Bearer   abc123  ''" and d="urlAnswer ''http://x/img.png''" and u="''http://x/img.png''"
      and res="pngDownload None"]
  have h: "apiKey ?cfg = Some ''Bearer   abc123  '' \<and>
    axiosPost ?env (zhipuUrl ?cfg) (zhipuBody ?input ?cfg)
      (jsonHeaders (cleanApiKey ''Bearer   abc123  '')) = Inr (urlAnswer ''http://x/img.png'') \<and>
    firstUrl (dataItems (urlAnswer ''http://x/img.png'')) = Some ''http://x/img.png'' \<and>
    resType ?input = Some ''b64'' \<and> axiosGet ?env ''http://x/img.png'' = Inr (pngDownload None)"
    using sample_apiKey[of "''cogview-4''"] sample_firstUrl
      sample_post[of "urlAnswer ''http://x/img.png''" "pngDownload None"]
      sample_get[of "urlAnswer ''http://x/img.png''" "pngDownload None"]
    by simp
  have v: "zhipuUrl ?cfg = ''http://host/v1/images/generations''"
    "zhipuBody ?input ?cfg = JObject [(''model'', JString ''cogview-4''), (''prompt'', JString ''a cat'')]"
    "jsonHeaders (cleanApiKey ''Bearer   abc123  '') =
       [(''Authorization'', ''Bearer abc123''), (''Content-Type'', ''application/json'')]"
    "''data:'' @ orElse (contentType (pngDownload None)) ''image/png'' @ '';base64,'' @
       toBase64 (content (pngDownload None)) = ''data:image/png;base64,iVBORw==''"
    by code_simp+
  have h2: "contentType (pngDownload None) = None \<or> contentType (pngDownload None) = Some []"
    by (simp add: pngDownload_def)
  have a: "generateZhipuImage ?env ?input ?cfg =
     ([HttpPost ''http://host/v1/images/generations''
         (JObject [(''model'', JString ''cogview-4''), (''prompt'', JString ''a cat'')])
         [(''Authorization'', ''Bearer abc123''), (''Content-Type'', ''application/json'')] 120000,
       HttpGet ''http://x/img.png''],
      Inr ''data:image/png;base64,iVBORw=='')"
    using mp[OF t[THEN conjunct1] h] unfolding v .
  have b: "matchesDataUriPattern ''data:image/png;base64,iVBORw==''"
    using mp[OF t[THEN conjunct2, THEN conjunct2, THEN conjunct2] h2] unfolding v .
  show ?thesis
    by (rule conjI[OF a b])
qed

subsection \<open>The fields of a ModelScope answer\<close>

lemma outputField_Some:
  "outputField f d = Some x \<longleftrightarrow> (\<exists>out. outputObj d = Some out \<and> f out = Some x \<and> x \<noteq> [])"
  by (cases "outputObj d") (auto simp: outputField_def truthy_def split: option.splits)




lemma responses_none:
  assumes "outputField image_url d = None" "outputField image_base64 d = None"
    "outputField outputText d = None"
  shows "nativeResponse env input d = ([ConsoleError d], Inl (Error NativeFormatUnsupported)) \<and>
         legacyResponse d = ([], Inl (Error LegacyFormatUnsupported))"
  using assms by (simp add: nativeResponse_def legacyResponse_def)


lemma modelScopeLegacy_answer:
  assumes "legacyImage input = Some img"
    and "axiosPost env (legacyUrl config) (legacyRequestData input img)
           (jsonHeaders (template (apiKey config))) = Inr d"
  shows "modelScopeLegacy env input config =
     (HttpPost (legacyUrl config) (legacyRequestData input img)
        (jsonHeaders (template (apiKey config))) 30000 # fst (legacyResponse d),
      snd (legacyResponse d))"
  unfolding modelScopeLegacy_def assms(1)
  by (simp add: postThen_Inr[OF assms(2), where k=legacyResponse
        and evs="fst (legacyResponse d)" and r="snd (legacyResponse d)"])





lemma sample_fields_none:
  "outputField f emptyResponse = None"
  "outputField image_url (outputResponse None None None) = None"
  "outputField image_base64 (outputResponse None None None) = None"
  "outputField outputText (outputResponse None None None) = None"
  by (simp_all add: outputField_def emptyResponse_def outputResponse_def truthy_def)




subsection \<open>The shape of the output\<close>

lemma isDataUri_built: "isDataUri (''data:'' @ mime @ '';base64,'' @ payload)"
proof -
  have "drop 5 (''data:'' @ mime @ '';base64,'' @ payload) = mime @ '';base64,'' @ payload"
    by simp
  moreover have "startsWith (''data:'' @ mime @ '';base64,'' @ payload) ''data:''"
    unfolding startsWith_iff by blast
  moreover have "includesStr (mime @ '';base64,'' @ payload) '';base64,''"
    unfolding includesStr_iff by blast
  ultimately show ?thesis
    unfolding isDataUri_def by simp
qed

lemma legacyResponse_Inr:
  assumes "snd (legacyResponse d) = Inr v"
  shows "\<exists>out. outputObj d = Some out \<and>
           (image_url out = Some v \<or> image_base64 out = Some v \<or>
            (\<exists>t. outputText out = Some t \<and> v = ''data:text/plain;base64,'' @ toBase64 (bufferFrom t)))"
  using assms
  by (auto simp: legacyResponse_def outputField_Some textAsDataUri_def split: option.splits)

lemma modelScopeLegacy_Inr:
  assumes "snd (modelScopeLegacy env input config) = Inr v"
  shows "\<exists>img d out.
           legacyImage input = Some img \<and>
           axiosPost env (legacyUrl config) (legacyRequestData input img)
             (jsonHeaders (template (apiKey config))) = Inr d \<and>
           outputObj d = Some out \<and>
           (image_url out = Some v \<or> image_base64 out = Some v \<or>
            (\<exists>t. outputText out = Some t \<and> v = ''data:text/plain;base64,'' @ toBase64 (bufferFrom t)))"
proof (cases "legacyImage input")
  case None
  with assms show ?thesis
    by (simp add: modelScopeLegacy_def)
next
  case (Some img)
  show ?thesis
  proof (cases "axiosPost env (legacyUrl config) (legacyRequestData input img)
                  (jsonHeaders (template (apiKey config)))")
    case (Inl e)
    with assms Some show ?thesis
      by (simp add: modelScopeLegacy_def postThen_def)
  next
    case (Inr d)
    from assms have "snd (legacyResponse d) = Inr v"
      unfolding modelScopeLegacy_answer[OF Some Inr] by simp
    from legacyResponse_Inr[OF this] Some Inr show ?thesis
      by blast
  qed
qed

lemma generateImage_Inr:
  assumes "selectAdapter config = Inr OpenAICompatibleAdapter" "\<not> isTextModel config"
    and "snd (imageDispatcher env input config) = Inr v"
  shows "sdkGenerateImage env (imageCall input config) = Inr v"
  using assms
  by (cases "sdkGenerateImage env (imageCall input config)")
     (simp_all add: imageDispatcher_def openAICompatible_def)

lemma sample_legacy_base64:
  "snd (modelScopeLegacy (sampleEnv (outputResponse None (Some ''iVBORw=='') None) (pngDownload None))
          (sampleInput\<lparr>imageUrl := Some ''http://x/in.png''\<rparr>)
          (sampleConfig ''Tongyi-MAI/Z-Image-Turbo'')) = Inr ''iVBORw==''"
proof -
  have i: "legacyImage (sampleInput\<lparr>imageUrl := Some ''http://x/in.png''\<rparr>) = Some ''http://x/in.png''"
    by (simp add: legacyImage_def sampleInput_def truthy_def)
  have r: "legacyResponse (outputResponse None (Some ''iVBORw=='') None) = ([], Inr ''iVBORw=='')"
    by (simp add: legacyResponse_def outputField_def outputResponse_def truthy_def)
  show ?thesis
    unfolding modelScopeLegacy_answer[OF i sample_post] r by simp
qed

lemma sample_gpt:
  "selectAdapter (sampleConfig ''gpt-image-1'') = Inr OpenAICompatibleAdapter"
  "\<not> isTextModel (sampleConfig ''gpt-image-1'')"
  by code_simp+

lemma sample_generateImage:
  "snd (imageDispatcher (sampleEnv d res) sampleInput (sampleConfig ''gpt-image-1'')) = Inr ''iVBORw==''"
  using sample_gpt by (simp add: imageDispatcher_def openAICompatible_def sampleEnv_def)

lemma bare_base64_shape: "\<not> isUrlString ''iVBORw=='' \<and> \<not> isDataUri ''iVBORw==''"
  by code_simp

text \<open>
  Claim C5 allows two shapes of output: a bare URL string and a string
  \<open>data:<mime>;base64,<payload>\<close>. The native ModelScope adapter puts
  \<open>data:image/png;base64,\<close> before a bare \<open>output.image_base64\<close>, and the branch of the
  dispatcher for the text models builds \<open>data:<type>;base64,<payload>\<close> from the files
  of the SDK. The legacy ModelScope adapter returns \<open>output.image_base64\<close> as the
  provider sent it, and the \<open>generateImage\<close> path of the dispatcher returns
  \<open>image.base64\<close> of the SDK: a bare base64 text, which is neither a URL nor a data
  URI.
\<close>

theorem bare_base64_is_returned:
  "snd (modelScopeLegacy (sampleEnv (outputResponse None (Some ''iVBORw=='') None) (pngDownload None))
          (sampleInput\<lparr>imageUrl := Some ''http://x/in.png''\<rparr>)
          (sampleConfig ''Tongyi-MAI/Z-Image-Turbo'')) = Inr ''iVBORw=='' \<and>
   snd (imageDispatcher (sampleEnv emptyResponse (pngDownload None)) sampleInput
          (sampleConfig ''gpt-image-1'')) = Inr ''iVBORw=='' \<and>
   \<not> isUrlString ''iVBORw=='' \<and> \<not> isDataUri ''iVBORw==''"
  by (intro conjI sample_legacy_base64 sample_generateImage
      conjunct1[OF bare_base64_shape] conjunct2[OF bare_base64_shape])

text \<open>
  Where the results come from. A successful invocation of the legacy ModelScope
  adapter returns \<open>output.image_url\<close> of the answer as it is, or \<open>output.image_base64\<close>
  of the answer as it is (with no \<open>data:\<close> prefix added), or \<open>data:text/plain;base64,\<close>
  with the base64 text of \<open>output.text\<close>. A successful invocation of the dispatcher
  on the \<open>generateImage\<close> path returns \<open>image.base64\<close> of the SDK as it is. The
  strings that the adapters build from \<open>data:\<close>, a type, \<open>;base64,\<close> and a payload
  have the shape of a data URI.
\<close>

lemma output_is_url_base64_or_data_uri:
  "(snd (modelScopeLegacy env input config) = Inr v \<longrightarrow>
      (\<exists>img d out.
         legacyImage input = Some img \<and>
         axiosPost env (legacyUrl config) (legacyRequestData input img)
           (jsonHeaders (template (apiKey config))) = Inr d \<and>
         outputObj d = Some out \<and>
         (image_url out = Some v \<or> image_base64 out = Some v \<or>
          (\<exists>t. outputText out = Some t \<and>
               v = ''data:text/plain;base64,'' @ toBase64 (bufferFrom t))))) \<and>
   (selectAdapter config = Inr OpenAICompatibleAdapter \<and> \<not> isTextModel config \<and>
    snd (imageDispatcher env input config) = Inr v \<longrightarrow>
      sdkGenerateImage env (imageCall input config) = Inr v) \<and>
   isDataUri (''data:'' @ mime @ '';base64,'' @ payload)"
  using modelScopeLegacy_Inr[of env input config v] generateImage_Inr[of config env input v]
    isDataUri_built[of mime payload]
  by blast

lemma output_is_url_base64_or_data_uri_witness:
  "(\<exists>img d out.
      legacyImage (sampleInput\<lparr>imageUrl := Some ''http://x/in.png''\<rparr>) = Some img \<and>
      axiosPost (sampleEnv (outputResponse None (Some ''iVBORw=='') None) (pngDownload None))
        (legacyUrl (sampleConfig ''Tongyi-MAI/Z-Image-Turbo''))
        (legacyRequestData (sampleInput\<lparr>imageUrl := Some ''http://x/in.png''\<rparr>) img)
        (jsonHeaders (template (apiKey (sampleConfig ''Tongyi-MAI/Z-Image-Turbo'')))) = Inr d \<and>
      outputObj d = Some out \<and>
      (image_url out = Some ''iVBORw=='' \<or> image_base64 out = Some ''iVBORw=='' \<or>
       (\<exists>t. outputText out = Some t \<and>
            ''iVBORw=='' = ''data:text/plain;base64,'' @ toBase64 (bufferFrom t)))) \<and>
   sdkGenerateImage (sampleEnv emptyResponse (pngDownload None))
     (imageCall sampleInput (sampleConfig ''gpt-image-1'')) = Inr ''iVBORw==''"
proof -
  note t1 = output_is_url_base64_or_data_uri[
      where env="sampleEnv (outputResponse None (Some ''iVBORw=='') None) (pngDownload None)"
        and input="sampleInput\<lparr>imageUrl := Some ''http://x/in.png''\<rparr>"
        and config="sampleConfig ''Tongyi-MAI/Z-Image-Turbo''" and v="''iVBORw==''"]
  note t2 = output_is_url_base64_or_data_uri[
      where env="sampleEnv emptyResponse (pngDownload None)" and input=sampleInput
        and config="sampleConfig ''gpt-image-1''" and v="''iVBORw==''"]
  show ?thesis
    by (rule conjI[OF mp[OF t1[THEN conjunct1] sample_legacy_base64]
          mp[OF t2[THEN conjunct2, THEN conjunct1]
            conjI[OF sample_gpt(1) conjI[OF sample_gpt(2) sample_generateImage]]]])
qed

subsection \<open>The poller\<close>

lemma pollLoop_pending_steps:
  assumes "\<forall>i<k. pending (check (length calls + i))" "now + k * interval \<le> timeout"
  shows "pollLoop check interval timeout calls now =
         pollLoop check interval timeout
           (calls @ map (\<lambda>i. now + i * interval) [0..<k]) (now + k * interval)"
  using assms
proof (induction k arbitrary: calls now)
  case 0
  then show ?case by simp
next
  case (Suc k)
  from Suc.prems(1) have p: "pending (check (length calls))"
    by (metis add.right_neutral zero_less_Suc)
  from Suc.prems(2) have le: "\<not> timeout < now + interval"
    by simp
  have step: "pollLoop check interval timeout calls now =
              pollLoop check interval timeout (calls @ [now]) (now + interval)"
    using p le by (subst pollLoop.simps) (simp add: pending_def)
  have "\<forall>i<k. pending (check (length (calls @ [now]) + i))"
    using Suc.prems(1) by (metis Suc_less_eq add_Suc_shift length_append_singleton)
  moreover have "now + interval + k * interval \<le> timeout"
    using Suc.prems(2) by simp
  ultimately have "pollLoop check interval timeout (calls @ [now]) (now + interval) =
      pollLoop check interval timeout
        ((calls @ [now]) @ map (\<lambda>i. now + interval + i * interval) [0..<k])
        (now + interval + k * interval)"
    by (rule Suc.IH)
  moreover have "(calls @ [now]) @ map (\<lambda>i. now + interval + i * interval) [0..<k] =
      calls @ map (\<lambda>i. now + i * interval) [0..<Suc k]"
    by (simp add: map_upt_Suc del: upt_Suc)
  moreover have "now + interval + k * interval = now + Suc k * interval"
    by simp
  ultimately show ?case
    using step by simp
qed

lemma pollTask_steps:
  assumes "\<forall>i<n. pending (check i)" "n * interval \<le> timeout"
  shows "pollTask check interval timeout =
         pollLoop check interval timeout (map (\<lambda>i. i * interval) [0..<n]) (n * interval)"
  unfolding pollTask_def
  using pollLoop_pending_steps[where calls="[]" and now=0 and k=n and check=check
      and interval=interval and timeout=timeout] assms
  by simp

lemma pollTask_resolves:
  assumes "\<forall>i<n. pending (check i)" "completed (check n)" "n * interval \<le> timeout"
  shows "pollTask check interval timeout =
         Some \<lparr>pollResult = Resolved (url (check n)),
               callTimes = map (\<lambda>i. i * interval) [0..<Suc n], finishedAt = n * interval\<rparr>"
  unfolding pollTask_steps[OF assms(1,3)]
  using assms(2) by (subst pollLoop.simps) simp

lemma pollTask_fails:
  assumes "\<forall>i<n. pending (check i)" "\<not> completed (check n)" "truthy (error (check n))"
    "n * interval \<le> timeout"
  shows "pollTask check interval timeout =
         Some \<lparr>pollResult = Failed (template (error (check n))),
               callTimes = map (\<lambda>i. i * interval) [0..<Suc n], finishedAt = n * interval\<rparr>"
  unfolding pollTask_steps[OF assms(1,4)]
  using assms(2,3) by (subst pollLoop.simps) simp

lemma pollTask_times_out:
  assumes "\<forall>i. pending (check i)" "0 < interval"
  shows "pollTask check interval timeout =
         Some \<lparr>pollResult = TimeoutError,
               callTimes = map (\<lambda>i. i * interval) [0..<Suc (timeout div interval)],
               finishedAt = Suc (timeout div interval) * interval\<rparr> \<and>
         timeout < Suc (timeout div interval) * interval \<and>
         Suc (timeout div interval) * interval \<le> timeout + interval"
proof -
  let ?k = "timeout div interval"
  have le: "?k * interval \<le> timeout"
    by simp
  have lt: "timeout < Suc ?k * interval"
    using assms(2) by (metis dividend_less_div_times mult.commute mult_Suc_right add.commute mult_Suc)
  have p: "\<forall>i<?k. pending (check i)"
    using assms(1) by simp
  have pk: "\<not> completed (check ?k)" "\<not> truthy (error (check ?k))"
    using assms(1) by (simp_all add: pending_def)
  have "pollTask check interval timeout =
         Some \<lparr>pollResult = TimeoutError,
               callTimes = map (\<lambda>i. i * interval) [0..<Suc ?k],
               finishedAt = Suc ?k * interval\<rparr>"
    unfolding pollTask_steps[OF p le]
    using pk lt by (subst pollLoop.simps) (simp add: add.commute)
  moreover have "Suc ?k * interval \<le> timeout + interval"
    using le by simp
  ultimately show ?thesis
    using lt by blast
qed
text \<open>
  Claim C3, on the poller as the spec describes it. With \<open>check\<close> pending on the
  calls before the call number \<open>n\<close> (counted from 0, so the first \<open>n + 1\<close> calls are
  made), and with the time \<open>n * interval\<close> of that call within the timeout: when that
  call completes, the poller resolves with its URL after exactly \<open>n + 1\<close> calls, made
  at the times \<open>0, interval, 2 * interval, ...\<close>; when that call reports an error,
  the poller fails with it at once, without another call. With \<open>check\<close> pending for
  ever and a positive interval, the poller ends with the timeout error, later than
  the timeout and no later than one interval after it.
\<close>

theorem poller_contract:
  "((\<forall>i<n. pending (check i)) \<and> completed (check n) \<and> n * interval \<le> timeout \<longrightarrow>
      pollTask check interval timeout =
        Some \<lparr>pollResult = Resolved (url (check n)),
              callTimes = map (\<lambda>i. i * interval) [0..<Suc n], finishedAt = n * interval\<rparr>) \<and>
   ((\<forall>i<n. pending (check i)) \<and> \<not> completed (check n) \<and> truthy (error (check n)) \<and>
    n * interval \<le> timeout \<longrightarrow>
      pollTask check interval timeout =
        Some \<lparr>pollResult = Failed (template (error (check n))),
              callTimes = map (\<lambda>i. i * interval) [0..<Suc n], finishedAt = n * interval\<rparr>) \<and>
   ((\<forall>i. pending (check i)) \<and> 0 < interval \<longrightarrow>
      pollTask check interval timeout =
        Some \<lparr>pollResult = TimeoutError,
              callTimes = map (\<lambda>i. i * interval) [0..<Suc (timeout div interval)],
              finishedAt = Suc (timeout div interval) * interval\<rparr> \<and>
      timeout < Suc (timeout div interval) * interval \<and>
      Suc (timeout div interval) * interval \<le> timeout + interval)"
  using pollTask_resolves[of n check interval timeout] pollTask_fails[of n check interval timeout]
    pollTask_times_out[of check interval timeout]
  by blast

theorem poller_contract_witness:
  "pollTask (sampleCheck 2) 1000 5000 =
     Some \<lparr>pollResult = Resolved (Some ''http://x/video.mp4''),
           callTimes = [0, 1000, 2000], finishedAt = 2000\<rparr> \<and>
   pollTask (\<lambda>i. pendingResult) 1000 5000 =
     Some \<lparr>pollResult = TimeoutError,
           callTimes = [0, 1000, 2000, 3000, 4000, 5000], finishedAt = 6000\<rparr>"
proof -
  have h1: "(\<forall>i<2. pending (sampleCheck 2 i)) \<and> completed (sampleCheck 2 2) \<and>
            2 * 1000 \<le> (5000::nat)"
    by (simp add: sampleCheck_def pendingResult_def pending_def truthy_def)
  have h2: "(\<forall>i. pending ((\<lambda>i. pendingResult) i)) \<and> 0 < (1000::nat)"
    by (simp add: pendingResult_def pending_def truthy_def)
  have l1: "map (\<lambda>i. i * 1000) [0..<Suc 2] = [0, 1000, 2000::nat]"
    by (simp add: upt_rec)
  have l2: "map (\<lambda>i. i * 1000) [0..<Suc (5000 div 1000)] = [0, 1000, 2000, 3000, 4000, 5000::nat]"
    by (simp add: upt_rec)
  have a: "pollTask (sampleCheck 2) 1000 5000 =
     Some \<lparr>pollResult = Resolved (Some ''http://x/video.mp4''),
           callTimes = [0, 1000, 2000], finishedAt = 2000\<rparr>"
    using mp[OF poller_contract[where n=2 and check="sampleCheck 2" and interval=1000
          and timeout=5000, THEN conjunct1] h1]
    unfolding l1 by (simp add: sampleCheck_def)
  have b: "pollTask (\<lambda>i. pendingResult) 1000 5000 =
     Some \<lparr>pollResult = TimeoutError,
           callTimes = [0, 1000, 2000, 3000, 4000, 5000], finishedAt = 6000\<rparr>"
    using mp[OF poller_contract[where check="\<lambda>i. pendingResult" and interval=1000
          and timeout=5000, THEN conjunct2, THEN conjunct2] h2]
    unfolding l2 by simp
  show ?thesis
    by (rule conjI[OF a b])
qed

subsection \<open>Invocations that break a rule of the spec\<close>

lemma urlResponse_url:
  assumes "firstUrl items = Some u" "resType input \<noteq> Some ''b64''"
  shows "urlResponse env input noUrl items d = ([], Inr u)"
  unfolding urlResponse_def assms(1) using assms(2) by simp

lemma generateZhipuImage_url:
  assumes "apiKey config = Some k"
    and "axiosPost env (zhipuUrl config) (zhipuBody input config) (jsonHeaders (cleanApiKey k)) = Inr d"
    and "firstUrl (dataItems d) = Some u" "resType input \<noteq> Some ''b64''"
  shows "generateZhipuImage env input config =
    ([HttpPost (zhipuUrl config) (zhipuBody input config) (jsonHeaders (cleanApiKey k)) 120000],
     Inr u)"
proof -
  have "postThen env (zhipuUrl config) (zhipuBody input config) (jsonHeaders (cleanApiKey k)) 120000
          (\<lambda>d. urlResponse env input ZhipuNoUrl (dataItems d) d) =
        (HttpPost (zhipuUrl config) (zhipuBody input config) (jsonHeaders (cleanApiKey k)) 120000 # [],
         Inr u)"
    by (rule postThen_Inr[OF assms(2)]) (rule urlResponse_url[OF assms(3,4)])
  then show ?thesis
    by (simp add: generateZhipuImage_def assms(1) catching_Inr)
qed

text \<open>On the Zhipu and ModelScope paths of the dispatcher a result is the URL of the
  answer or a data URI.\<close>

lemma urlResponse_shape:
  assumes "snd (urlResponse env input noUrl items d) = Inr v"
  shows "firstUrl items = Some v \<or> isDataUri v"
proof (cases "firstUrl items")
  case None
  with assms show ?thesis
    by (simp add: urlResponse_def)
next
  case (Some u)
  show ?thesis
  proof (cases "resType input = Some ''b64''")
    case False
    with assms Some show ?thesis
      by (simp add: urlResponse_def)
  next
    case True
    with assms Some have "snd (urlToBase64 env u) = Inr v"
      by (simp add: urlResponse_def)
    then obtain res where "v = dataUri res"
      by (cases "axiosGet env u") (auto simp: urlToBase64_def)
    then show ?thesis
      using isDataUri_built[of "orElse (contentType res) ''image/png''" "toBase64 (content res)"]
      by (simp add: dataUri_def)
  qed
qed

lemma sample_zhipu_values:
  "zhipuUrl (sampleConfig ''cogview-4'') = ''http://host/v1/images/generations''"
  "jsonHeaders (cleanApiKey ''Bearer   abc123  '') =
     [(''Authorization'', ''Bearer abc123''), (''Content-Type'', ''application/json'')]"
  "zhipuBody (sampleInput\<lparr>prompt := None\<rparr>) (sampleConfig ''cogview-4'') =
     JObject [(''model'', JString ''cogview-4''), (''prompt'', JUndefined)]"
  "zhipuBody (sampleInput\<lparr>imageBase64 := Some [''data:image/svg+xml;base64,PHN2Zz4='']\<rparr>)
     (sampleConfig ''cogview-4'') =
     JObject [(''model'', JString ''cogview-4''), (''prompt'', JString ''a cat''),
              (''image'', JString ''data:image/svg+xml;base64,PHN2Zz4='')]"
  by code_simp+

lemma sample_zhipu_route:
  "imageDispatcher env input (sampleConfig ''cogview-4'') =
   generateZhipuImage env input (sampleConfig ''cogview-4'')"
proof -
  have "selectAdapter (sampleConfig ''cogview-4'') = Inr ZhipuAdapter"
    by code_simp
  then show ?thesis
    by (simp add: imageDispatcher_def)
qed

lemma sample_zhipu_url_outcome:
  assumes "resType input \<noteq> Some ''b64''"
  shows "imageDispatcher (sampleEnv (urlAnswer ''http://x/img.png'') res) input (sampleConfig ''cogview-4'') =
    ([HttpPost ''http://host/v1/images/generations'' (zhipuBody input (sampleConfig ''cogview-4''))
        [(''Authorization'', ''Bearer abc123''), (''Content-Type'', ''application/json'')] 120000],
     Inr ''http://x/img.png'')"
  unfolding sample_zhipu_route
  using generateZhipuImage_url[OF sample_apiKey sample_post sample_firstUrl assms,
      where res1=res and m2="''cogview-4''"]
  unfolding sample_zhipu_values .

text \<open>
  Claim C9 asks every image generation for its prompt before any provider call. The
  native ModelScope adapter makes that check (see above). The image dispatcher and
  its functions \<open>generateZhipuImage\<close> and \<open>generateModelScopeImage\<close> make none: without
  a prompt the dispatcher posts a body whose prompt is \<open>undefined\<close> to the Zhipu
  endpoint and returns the URL of the answer, where the native ModelScope adapter
  throws the error of the missing prompt without any call.
\<close>

theorem dispatcher_posts_without_prompt:
  "imageDispatcher (sampleEnv (urlAnswer ''http://x/img.png'') (pngDownload None))
     (sampleInput\<lparr>prompt := None\<rparr>) (sampleConfig ''cogview-4'') =
     ([HttpPost ''http://host/v1/images/generations''
         (JObject [(''model'', JString ''cogview-4''), (''prompt'', JUndefined)])
         [(''Authorization'', ''Bearer abc123''), (''Content-Type'', ''application/json'')] 120000],
      Inr ''http://x/img.png'') \<and>
   modelScopeNative (sampleEnv (urlAnswer ''http://x/img.png'') (pngDownload None))
     (sampleInput\<lparr>prompt := None\<rparr>) (sampleConfig ''cogview-4'') =
     ([], Inl (Error MissingPrompt))"
proof -
  have r: "resType (sampleInput\<lparr>prompt := None\<rparr>) \<noteq> Some ''b64''"
    by (simp add: sampleInput_def)
  have a: "imageDispatcher (sampleEnv (urlAnswer ''http://x/img.png'') (pngDownload None))
     (sampleInput\<lparr>prompt := None\<rparr>) (sampleConfig ''cogview-4'') =
     ([HttpPost ''http://host/v1/images/generations''
         (JObject [(''model'', JString ''cogview-4''), (''prompt'', JUndefined)])
         [(''Authorization'', ''Bearer abc123''), (''Content-Type'', ''application/json'')] 120000],
      Inr ''http://x/img.png'')"
    using sample_zhipu_url_outcome[OF r, of "pngDownload None"] unfolding sample_zhipu_values .
  have b: "modelScopeNative (sampleEnv (urlAnswer ''http://x/img.png'') (pngDownload None))
     (sampleInput\<lparr>prompt := None\<rparr>) (sampleConfig ''cogview-4'') =
     ([], Inl (Error MissingPrompt))"
    by (simp add: modelScopeNative_def sampleConfig_def truthy_def)
  show ?thesis
    by (rule conjI[OF a b])
qed

text \<open>
  Claim C7 asks for the removal of the \<open>data:image/...;base64,\<close> prefix of a reference
  image. The pattern of the adapters, \<open>[a-z]+\<close> for the subtype, misses a subtype with
  any other character: the native ModelScope adapter, \<open>generateZhipuImage\<close> and
  \<open>generateModelScopeImage\<close> send \<open>data:image/svg+xml;base64,PHN2Zz4=\<close> with its prefix.
  For \<open>data:image/jp2;base64,AAAA\<close> the pattern of the video form, \<open>\w+\<close>, removes the
  prefix, and the pattern of the image adapters does not.
\<close>

theorem unstripped_prefix_is_sent:
  "nativeRequestData (sampleInput\<lparr>imageBase64 := Some [''data:image/svg+xml;base64,PHN2Zz4='']\<rparr>) =
     JObject [(''input'', JObject [(''prompt'', JString ''a cat''),
                                  (''image'', JString ''data:image/svg+xml;base64,PHN2Zz4='')]),
              (''parameters'', JObject [])] \<and>
   imageDispatcher (sampleEnv (urlAnswer ''http://x/img.png'') (pngDownload None))
     (sampleInput\<lparr>imageBase64 := Some [''data:image/svg+xml;base64,PHN2Zz4='']\<rparr>)
     (sampleConfig ''cogview-4'') =
     ([HttpPost ''http://host/v1/images/generations''
         (JObject [(''model'', JString ''cogview-4''), (''prompt'', JString ''a cat''),
                   (''image'', JString ''data:image/svg+xml;base64,PHN2Zz4='')])
         [(''Authorization'', ''Bearer abc123''), (''Content-Type'', ''application/json'')] 120000],
      Inr ''http://x/img.png'') \<and>
   modelScopeBody (sampleInput\<lparr>imageBase64 := Some [''data:image/svg+xml;base64,PHN2Zz4='']\<rparr>)
     (sampleConfig ''Tongyi-MAI/Z-Image-Turbo'') =
     JObject [(''model'', JString ''Tongyi-MAI/Z-Image-Turbo''), (''prompt'', JString ''a cat''),
              (''n'', JNumber 1), (''image'', JString ''data:image/svg+xml;base64,PHN2Zz4='')] \<and>
   replaceDataImage ''data:image/jp2;base64,AAAA'' = ''data:image/jp2;base64,AAAA'' \<and>
   replaceDataImageWord ''data:image/jp2;base64,AAAA'' = ''AAAA''"
proof -
  let ?input = "sampleInput\<lparr>imageBase64 := Some [''data:image/svg+xml;base64,PHN2Zz4='']\<rparr>"
  have r: "resType ?input \<noteq> Some ''b64''"
    by (simp add: sampleInput_def)
  have a: "nativeRequestData ?input =
     JObject [(''input'', JObject [(''prompt'', JString ''a cat''),
                                  (''image'', JString ''data:image/svg+xml;base64,PHN2Zz4='')]),
              (''parameters'', JObject [])]"
    by code_simp
  have b: "imageDispatcher (sampleEnv (urlAnswer ''http://x/img.png'') (pngDownload None)) ?input
     (sampleConfig ''cogview-4'') =
     ([HttpPost ''http://host/v1/images/generations''
         (JObject [(''model'', JString ''cogview-4''), (''prompt'', JString ''a cat''),
                   (''image'', JString ''data:image/svg+xml;base64,PHN2Zz4='')])
         [(''Authorization'', ''Bearer abc123''), (''Content-Type'', ''application/json'')] 120000],
      Inr ''http://x/img.png'')"
    using sample_zhipu_url_outcome[OF r, of "pngDownload None"] unfolding sample_zhipu_values .
  have c: "modelScopeBody ?input (sampleConfig ''Tongyi-MAI/Z-Image-Turbo'') =
     JObject [(''model'', JString ''Tongyi-MAI/Z-Image-Turbo''), (''prompt'', JString ''a cat''),
              (''n'', JNumber 1), (''image'', JString ''data:image/svg+xml;base64,PHN2Zz4='')]"
    by code_simp
  have d: "replaceDataImage ''data:image/jp2;base64,AAAA'' = ''data:image/jp2;base64,AAAA''"
    by code_simp
  have e: "replaceDataImageWord ''data:image/jp2;base64,AAAA'' = ''AAAA''"
    by code_simp
  show ?thesis
    by (rule conjI[OF a conjI[OF b conjI[OF c conjI[OF d e]]]])
qed

text \<open>
  Claim C6 asks for the cleaned key after \<open>Bearer\<close> in the Authorization header. The
  native ModelScope adapter and the image dispatcher send it (see above). The first
  video dispatcher cleans the key too, and then, on its OpenAI-compatible path,
  builds the header from \<open>config.apiKey\<close>: for the key \<open>"Bearer   abc123  "\<close> it posts
  with \<open>Bearer Bearer   abc123  \<close>. The legacy ModelScope image adapter never cleans
  the key and sends the same header.
\<close>

theorem raw_key_in_authorization:
  "videoDispatcher sampleVideo (sampleConfig ''sora-2'') =
     Posts ''http://host/v1/''
       [(''model'', JString ''sora-2''), (''prompt'', JString ''a cat''), (''seconds'', JNumber 5),
        (''size'', JString ''1920x1080'')] \<and>
   videoAuthorization (sampleConfig ''sora-2'') = ''Bearer Bearer   abc123  '' \<and>
   map authorization
     (fst (modelScopeLegacy (sampleEnv emptyResponse (pngDownload None))
             (sampleInput\<lparr>imageUrl := Some ''http://x/in.png''\<rparr>)
             (sampleConfig ''Tongyi-MAI/Z-Image-Turbo''))) =
     [Some ''Bearer Bearer   abc123  ''] \<and>
   cleanApiKey ''Bearer   abc123  '' = ''abc123''"
proof -
  have a: "videoDispatcher sampleVideo (sampleConfig ''sora-2'') =
     Posts ''http://host/v1/''
       [(''model'', JString ''sora-2''), (''prompt'', JString ''a cat''), (''seconds'', JNumber 5),
        (''size'', JString ''1920x1080'')]"
    by code_simp
  have b: "videoAuthorization (sampleConfig ''sora-2'') = ''Bearer Bearer   abc123  ''"
    by (simp add: videoAuthorization_def sampleConfig_def template_def)
  have i: "legacyImage (sampleInput\<lparr>imageUrl := Some ''http://x/in.png''\<rparr>) = Some ''http://x/in.png''"
    by (simp add: legacyImage_def sampleInput_def truthy_def)
  have k: "template (apiKey (sampleConfig ''Tongyi-MAI/Z-Image-Turbo'')) = ''Bearer   abc123  ''"
    by (simp add: sampleConfig_def template_def)
  have l: "legacyResponse emptyResponse = ([], Inl (Error LegacyFormatUnsupported))"
    by (rule responses_none[OF sample_fields_none(1) sample_fields_none(1) sample_fields_none(1),
          THEN conjunct2])
  have c: "map authorization
     (fst (modelScopeLegacy (sampleEnv emptyResponse (pngDownload None))
             (sampleInput\<lparr>imageUrl := Some ''http://x/in.png''\<rparr>)
             (sampleConfig ''Tongyi-MAI/Z-Image-Turbo''))) =
     [Some ''Bearer Bearer   abc123  '']"
    unfolding modelScopeLegacy_answer[OF i sample_post] l k
    by (simp add: jsonHeaders_def)
  have d: "cleanApiKey ''Bearer   abc123  '' = ''abc123''"
    by code_simp
  show ?thesis
    by (rule conjI[OF a conjI[OF b conjI[OF c d]]])
qed

end
